theory Spec2Isabelle
  imports Complex_Main "HOL-Library.Monad_Syntax" "HOL-Library.Signed_Division"
    "HOL-Library.Multiset"
begin

section \<open>Extended-reduction MST engine (extreduce\_extmst.c)\<close>

text \<open>
  A shallow embedding of the MST and bottleneck routines of \<^verbatim>\<open>extreduce_extmst.c\<close>.
  \<^item> \<^verbatim>\<open>SCIP_Real\<close> is modelled by \<^typ>\<open>real\<close> (exact arithmetic), C \<^verbatim>\<open>int\<close> by \<^typ>\<open>int\<close>
    (no arithmetic of the file can overflow on an index), C arrays by lists.
  \<^item> A function that reads an array or runs a loop returns an \<^typ>\<open>'a option\<close>:
    \<^term>\<open>None\<close> stands for an execution without a defined result (a read outside
    the array, or a loop that never ends).
  \<^item> The \<^verbatim>\<open>assert\<close>s of the file are compiled out in the optimised build; they are
    not part of the functions below and appear as hypotheses of theorems where needed.
\<close>

subsection \<open>Arrays\<close>

definition rd :: "'a list \<Rightarrow> int \<Rightarrow> 'a option" where
  "rd xs i = (if 0 \<le> i \<and> i < int (length xs) then Some (xs ! nat i) else None)"

definition wr :: "'a list \<Rightarrow> int \<Rightarrow> 'a \<Rightarrow> 'a list option" where
  "wr xs i v = (if 0 \<le> i \<and> i < int (length xs) then Some (xs[nat i := v]) else None)"

text \<open>Reading and writing through a pointer that may be \<^verbatim>\<open>NULL\<close> (\<open>None\<close>): there is no
  defined result then.\<close>

fun rdp :: "'a list option \<Rightarrow> int \<Rightarrow> 'a option" where
  "rdp None i = None"
| "rdp (Some xs) i = rd xs i"

fun wrp :: "'a list option \<Rightarrow> int \<Rightarrow> 'a \<Rightarrow> 'a list option" where
  "wrp None i v = None"
| "wrp (Some xs) i v = wr xs i v"

subsection \<open>Data\<close>

text \<open>The fields of \<^verbatim>\<open>GRAPH\<close> that the file reads. \<^verbatim>\<open>prize\<close> is a null pointer
  outside the prize-collecting variant. The \<^verbatim>\<open>dcsr_storage\<close> of the graph is flattened
  into its three arrays; a \<^verbatim>\<open>RANGE\<close> is the pair of its start and its end.\<close>

record GRAPH =
  knots :: int
  edges :: int
  head :: "int list"
  tail :: "int list"
  cost :: "real list"
  outbeg :: "int list"
  oeat :: "int list"
  gterm :: "int list"
  prize :: "real list option"
  dcsr_range :: "(int \<times> int) list"
  dcsr_head :: "int list"
  dcsr_cost :: "real list"

text \<open>Modelled from the spec: the type \<^verbatim>\<open>CSR\<close> is declared in graph.h, which is not
  part of the sources; a compressed sparse-row graph with its node and edge-entry counts.\<close>

record CSR =
  nnodes :: int
  nedges_max :: int
  csr_start :: "int list"
  csr_head :: "int list"
  csr_cost :: "real list"

text \<open>Modelled from the spec: the CSR depot (graph\_csrdepo\_*, not part of the sources) is
  a stack of CSRs; the top one may still be empty (being written) until it is set marked.
  The top of the stack is the head of the list. Where the C code writes through the
  pointers that \<^verbatim>\<open>graph_csrdepo_getEmptyTop\<close> hands out, the model reads the CSR and puts
  it back with \<open>graph_csrdepo_putEmptyTop\<close>.\<close>

record CSRDEPO =
  depo_csrs :: "CSR list"
  depo_topIsEmpty :: bool

definition graph_csrdepo_getNcsrs :: "CSRDEPO \<Rightarrow> int" where
  "graph_csrdepo_getNcsrs d = int (length (depo_csrs d))"

definition graph_csrdepo_isEmpty :: "CSRDEPO \<Rightarrow> bool" where
  "graph_csrdepo_isEmpty d = (depo_csrs d = [])"

definition graph_csrdepo_getTopCSR :: "CSRDEPO \<Rightarrow> CSR option" where
  "graph_csrdepo_getTopCSR d =
     (case depo_csrs d of [] \<Rightarrow> None
      | c # cs \<Rightarrow> if depo_topIsEmpty d then None else Some c)"

definition graph_csrdepo_removeTop :: "CSRDEPO \<Rightarrow> CSRDEPO option" where
  "graph_csrdepo_removeTop d =
     (case depo_csrs d of [] \<Rightarrow> None
      | c # cs \<Rightarrow> Some (d\<lparr>depo_csrs := cs, depo_topIsEmpty := False\<rparr>))"






text \<open>Modelled from the spec: the multi-level distance store (extreduce\_mldists*, not part
  of the sources) is a stack of levels; a level holds up to \<open>lvl_maxslots\<close> filled slots,
  each slot a base vertex with \<open>lvl_ntargets\<close> target ids and distances. The top level is
  the head of the list. While the top level is open, the store has one empty slot that is
  being written: its cells hold no defined value before they are written (the model puts
  \<open>-1\<close> there), and it has one cell more than the level has targets, the cell of the entry
  that \<^verbatim>\<open>mstLevelLeafAdjustVerticalSDs\<close> removes. Where the C code writes through the
  pointers that the store hands out, the model reads the arrays and puts them back.\<close>

record MLSLOT =
  slot_base :: int
  slot_dists :: "real list"
  slot_ids :: "int list"

record MLLEVEL =
  lvl_maxslots :: int
  lvl_ntargets :: int
  lvl_slots :: "MLSLOT list"
  lvl_closed :: bool

record MLDISTS =
  ml_levels :: "MLLEVEL list"
  ml_emptyslot :: MLSLOT

definition mldistsFreshSlot :: "int \<Rightarrow> MLSLOT" where
  "mldistsFreshSlot ntargets =
     \<lparr> slot_base = - 1, slot_dists = replicate (nat ntargets + 1) (- 1),
       slot_ids = replicate (nat ntargets + 1) (- 1) \<rparr>"

definition extreduce_mldistsNlevels :: "MLDISTS \<Rightarrow> int" where
  "extreduce_mldistsNlevels m = int (length (ml_levels m))"


definition extreduce_mldistsEmptySlotExists :: "MLDISTS \<Rightarrow> bool" where
  "extreduce_mldistsEmptySlotExists m =
     (case ml_levels m of [] \<Rightarrow> False
      | l # ls \<Rightarrow> \<not> lvl_closed l \<and> int (length (lvl_slots l)) < lvl_maxslots l)"


definition extreduce_mldistsEmptySlotSetBase :: "int \<Rightarrow> MLDISTS \<Rightarrow> MLDISTS option" where
  "extreduce_mldistsEmptySlotSetBase base m =
     (if extreduce_mldistsEmptySlotExists m
      then Some (m\<lparr>ml_emptyslot := (ml_emptyslot m)\<lparr>slot_base := base\<rparr>\<rparr>)
      else None)"

definition extreduce_mldistsEmptySlotTargetDists :: "MLDISTS \<Rightarrow> real list option" where
  "extreduce_mldistsEmptySlotTargetDists m =
     (if extreduce_mldistsEmptySlotExists m then Some (slot_dists (ml_emptyslot m)) else None)"


definition mldistsEmptySlotPutDists :: "real list \<Rightarrow> MLDISTS \<Rightarrow> MLDISTS" where
  "mldistsEmptySlotPutDists ds m = m\<lparr>ml_emptyslot := (ml_emptyslot m)\<lparr>slot_dists := ds\<rparr>\<rparr>"


definition extreduce_mldistsEmptySlotSetFilled :: "MLDISTS \<Rightarrow> MLDISTS option" where
  "extreduce_mldistsEmptySlotSetFilled m =
     (case ml_levels m of [] \<Rightarrow> None
      | l # ls \<Rightarrow>
          if extreduce_mldistsEmptySlotExists m then
            Some (m\<lparr>ml_levels :=
                      l\<lparr>lvl_slots := lvl_slots l @
                          [\<lparr> slot_base = slot_base (ml_emptyslot m),
                             slot_dists = take (nat (lvl_ntargets l)) (slot_dists (ml_emptyslot m)),
                             slot_ids = take (nat (lvl_ntargets l)) (slot_ids (ml_emptyslot m)) \<rparr>]\<rparr>
                      # ls,
                    ml_emptyslot := mldistsFreshSlot (lvl_ntargets l)\<rparr>)
          else None)"

definition extreduce_mldistsEmptySlotReset :: "MLDISTS \<Rightarrow> MLDISTS option" where
  "extreduce_mldistsEmptySlotReset m =
     (case ml_levels m of [] \<Rightarrow> None
      | l # ls \<Rightarrow>
          if extreduce_mldistsEmptySlotExists m
          then Some (m\<lparr>ml_emptyslot := mldistsFreshSlot (lvl_ntargets l)\<rparr>)
          else None)"


definition extreduce_mldistsLevelRemoveTop :: "MLDISTS \<Rightarrow> MLDISTS option" where
  "extreduce_mldistsLevelRemoveTop m =
     (case ml_levels m of [] \<Rightarrow> None
      | l # ls \<Rightarrow> Some (m\<lparr>ml_levels := ls\<rparr>))"








record PCDATA =
  pcSdToNode :: "real list option"
  pcSdCands :: "int list"
  nPcSdCands :: int
  tree_innerPrize :: real

text \<open>\<open>dcmst_adjcosts\<close> is the adjacency cost buffer of the \<^verbatim>\<open>DCMST\<close>
  (\<^verbatim>\<open>reduce_dcmstGetAdjcostBuffer\<close>).\<close>

record REDDATA =
  sds_vertical :: MLDISTS
  sds_horizontal :: MLDISTS
  msts_comp :: CSRDEPO
  msts_levelbase :: CSRDEPO
  dcmst_adjcosts :: "real list"

record EXTDATA =
  tree_bottleneckDistNode :: "real list"
  tree_parentEdgeCost :: "real list"
  tree_parentNode :: "int list"
  tree_deg :: "int list"
  tree_root :: int
  tree_leaves :: "int list"
  tree_nleaves :: int
  tree_innerNodes :: "int list"
  tree_ninnerNodes :: int
  tree_cost :: real
  tree_depth :: int
  sdeq_edgesIsForbidden :: "bool list"
  sdeq_hasForbiddenEdges :: bool
  sdeq_resetStack :: "int list"
  extstack_data :: "int list"
  extstack_start :: "int list"
  extstack_state :: "int list"
  pcdata :: PCDATA
  reddata :: REDDATA

text \<open>The constants, macros and helper functions that the file uses and that are declared
  in headers outside the sources (portab.h, graph.h, extreduce.h, reduce.h). They are
  parameters of the model: every definition below takes them in an \<open>ENV\<close>. The three
  \<open>extreduce_distData*\<close> functions are the distance oracle.\<close>

record ENV =
  EPSILON :: real
  FARAWAY :: real
  EAT_LAST :: int
  EXT_STATE_MARKED :: int
  STP_EXT_MAXGRAD :: int
  Is_term :: "int \<Rightarrow> bool"
  extStackGetPosition :: "EXTDATA \<Rightarrow> int"
  extIsAtInitialComp :: "EXTDATA \<Rightarrow> bool"
  extInitialCompIsStar :: "EXTDATA \<Rightarrow> bool"
  extIsAtInitialGenStar :: "EXTDATA \<Rightarrow> bool"
  extStackGetOutEdgesStart :: "EXTDATA \<Rightarrow> int \<Rightarrow> int"
  extStackGetOutEdgesEnd :: "EXTDATA \<Rightarrow> int \<Rightarrow> int"
  extLeafFindPos :: "EXTDATA \<Rightarrow> int \<Rightarrow> int"
  extreduce_distDataGetSdDouble :: "int \<Rightarrow> int \<Rightarrow> real"
  extreduce_distDataGetSdDoubleForbidden :: "int \<Rightarrow> int \<Rightarrow> EXTDATA \<Rightarrow> real"
  extreduce_distDataGetSdDoubleForbiddenEq :: "real \<Rightarrow> int \<Rightarrow> int \<Rightarrow> int \<Rightarrow> EXTDATA \<Rightarrow> real"
  reduce_dcmstGetWeight :: "CSR \<Rightarrow> real"
  reduce_dcmstGetExtWeight :: "CSR \<Rightarrow> real list \<Rightarrow> real"
  reduce_dcmstAddNode :: "CSR \<Rightarrow> real list \<Rightarrow> CSR \<Rightarrow> CSR"
  reduce_dcmstAddNodeInplace :: "real list \<Rightarrow> CSR \<Rightarrow> CSR"
  reduce_dcmstGet1NodeMst :: "CSR \<Rightarrow> CSR"
  graph_csr_copy :: "CSR \<Rightarrow> CSR \<Rightarrow> CSR"

text \<open>Modelled from the spec: the comparison macros of portab.h (not part of the sources)
  compare up to the fixed tolerance \<open>EPSILON\<close>.\<close>

definition LT :: "ENV \<Rightarrow> real \<Rightarrow> real \<Rightarrow> bool" where
  "LT E a b = (a - b < - EPSILON E)"

definition LE :: "ENV \<Rightarrow> real \<Rightarrow> real \<Rightarrow> bool" where
  "LE E a b = (a - b < EPSILON E)"

definition EQ :: "ENV \<Rightarrow> real \<Rightarrow> real \<Rightarrow> bool" where
  "EQ E a b = (\<bar>a - b\<bar> \<le> EPSILON E)"

text \<open>Modelled from the spec: \<open>UNKNOWN\<close> is encoded as \<open>-1\<close>.\<close>

definition UNKNOWN :: int where
  "UNKNOWN = - 1"

text \<open>\<^verbatim>\<open>graph_pc_isPc\<close> is not part of the sources; \<^verbatim>\<open>mstCompRuleOut\<close> asserts that it
  agrees with \<^verbatim>\<open>graph->prize != NULL\<close>.\<close>

definition graph_pc_isPc :: "GRAPH \<Rightarrow> bool" where
  "graph_pc_isPc g = (prize g \<noteq> None)"

subsection \<open>Special distances and the extension stack\<close>

definition extGetSdPcUpdate :: "PCDATA \<Rightarrow> int \<Rightarrow> real \<Rightarrow> real option" where
  "extGetSdPcUpdate pcd vertex2 sd = do {
     sdpc \<leftarrow> rdp (pcSdToNode pcd) vertex2;
     Some (if sdpc > - (1 / 2) \<and> (sdpc < sd \<or> sd < - (1 / 2)) then sdpc else sd)
   }"

definition extGetSdDouble :: "ENV \<Rightarrow> GRAPH \<Rightarrow> int \<Rightarrow> int \<Rightarrow> EXTDATA \<Rightarrow> real option" where
  "extGetSdDouble E g vertex1 vertex2 extdata =
     (let sd = extreduce_distDataGetSdDouble E vertex1 vertex2
      in if pcSdToNode (pcdata extdata) \<noteq> None
         then extGetSdPcUpdate (pcdata extdata) vertex2 sd
         else Some sd)"

text \<open>The file is compiled with \<^verbatim>\<open>EXT_DOUBLESD_ALWAYS\<close> defined.\<close>

definition extGetSd :: "ENV \<Rightarrow> GRAPH \<Rightarrow> int \<Rightarrow> int \<Rightarrow> EXTDATA \<Rightarrow> real option" where
  "extGetSd E g vertex1 vertex2 extdata = extGetSdDouble E g vertex1 vertex2 extdata"



definition extStackGetTopSize :: "ENV \<Rightarrow> EXTDATA \<Rightarrow> int option" where
  "extStackGetTopSize E extdata = do {
     let stackpos = extStackGetPosition E extdata;
     hi \<leftarrow> rd (extstack_start extdata) (stackpos + 1);
     lo \<leftarrow> rd (extstack_start extdata) stackpos;
     Some (hi - lo)
   }"

definition extGetNancestorLeaves :: "ENV \<Rightarrow> EXTDATA \<Rightarrow> int option" where
  "extGetNancestorLeaves E extdata =
     (if extIsAtInitialComp E extdata then Some 1
      else do {
        compsize \<leftarrow> extStackGetTopSize E extdata;
        Some (tree_nleaves extdata - compsize)
      })"

subsection \<open>Bottleneck distances on the root path\<close>

text \<open>The update of the local accumulator that the bottleneck loops of the file share
  (written out in each of them in the source): through a vertex of tree degree 2 the cost
  of its parent edge is added, and in the prize-collecting variant the prize of a terminal
  is subtracted; at any other vertex the accumulator restarts with the parent edge cost.\<close>

definition bottleneckLocal :: "ENV \<Rightarrow> GRAPH \<Rightarrow> EXTDATA \<Rightarrow> real \<Rightarrow> int \<Rightarrow> real option" where
  "bottleneckLocal E graph extdata bottleneck_local node = do {
     deg \<leftarrow> rd (tree_deg extdata) node;
     pcost \<leftarrow> rd (tree_parentEdgeCost extdata) node;
     if deg = 2 then
       (if graph_pc_isPc graph then do {
          t \<leftarrow> rd (gterm graph) node;
          if Is_term E t then do {
            p \<leftarrow> rdp (prize graph) node;
            Some (bottleneck_local + pcost - p)
          } else Some (bottleneck_local + pcost)
        } else Some (bottleneck_local + pcost))
     else Some pcost
   }"

text \<open>The \<^verbatim>\<open>while( currentNode != -1 )\<close> loop of \<^verbatim>\<open>bottleneckMarkRootPath\<close>; the
  bottleneck array is threaded through.\<close>

partial_function (option) markRootPathLoop ::
  "ENV \<Rightarrow> GRAPH \<Rightarrow> EXTDATA \<Rightarrow> real list \<Rightarrow> real \<Rightarrow> real \<Rightarrow> int \<Rightarrow> int \<Rightarrow> real list option"
where
  "markRootPathLoop E graph extdata bdn bottleneck bottleneck_local childNode currentNode =
     (if currentNode \<noteq> - 1 then do {
        bl \<leftarrow> bottleneckLocal E graph extdata bottleneck_local childNode;
        let b = (if bottleneck < bl then bl else bottleneck);
        bdn' \<leftarrow> wr bdn currentNode b;
        next \<leftarrow> rd (tree_parentNode extdata) currentNode;
        markRootPathLoop E graph extdata bdn' b bl currentNode next
      } else Some bdn)"

definition bottleneckMarkRootPath :: "ENV \<Rightarrow> GRAPH \<Rightarrow> int \<Rightarrow> EXTDATA \<Rightarrow> EXTDATA option" where
  "bottleneckMarkRootPath E graph vertex extdata =
     (if vertex = tree_root extdata then do {
        bdn \<leftarrow> wr (tree_bottleneckDistNode extdata) vertex 0;
        Some (extdata\<lparr>tree_bottleneckDistNode := bdn\<rparr>)
      } else do {
        currentNode \<leftarrow> rd (tree_parentNode extdata) vertex;
        bdn \<leftarrow> markRootPathLoop E graph extdata (tree_bottleneckDistNode extdata) 0 0
                 vertex currentNode;
        Some (extdata\<lparr>tree_bottleneckDistNode := bdn\<rparr>)
      })"

text \<open>The \<^verbatim>\<open>for\<close> loop of \<^verbatim>\<open>bottleneckUnmarkRootPath\<close>.\<close>

partial_function (option) unmarkRootPathLoop ::
  "int list \<Rightarrow> real list \<Rightarrow> int \<Rightarrow> real list option"
where
  "unmarkRootPathLoop parentNode bdn currentNode =
     (if currentNode \<noteq> - 1 then do {
        bdn' \<leftarrow> wr bdn currentNode (- 1);
        next \<leftarrow> rd parentNode currentNode;
        unmarkRootPathLoop parentNode bdn' next
      } else Some bdn)"

definition bottleneckUnmarkRootPath :: "GRAPH \<Rightarrow> int \<Rightarrow> EXTDATA \<Rightarrow> EXTDATA option" where
  "bottleneckUnmarkRootPath graph vertex extdata = do {
     bdn \<leftarrow> (if vertex = tree_root extdata
             then wr (tree_bottleneckDistNode extdata) vertex (- 1)
             else Some (tree_bottleneckDistNode extdata));
     currentNode \<leftarrow> rd (tree_parentNode extdata) vertex;
     bdn' \<leftarrow> unmarkRootPathLoop (tree_parentNode extdata) bdn currentNode;
     Some (extdata\<lparr>tree_bottleneckDistNode := bdn'\<rparr>)
   }"

text \<open>The \<^verbatim>\<open>for\<close> loop of \<^verbatim>\<open>bottleneckGetDist\<close>: it walks up from the unmarked vertex
  until it meets a vertex whose bottleneck is set, and returns the running maximum together
  with that vertex.\<close>

partial_function (option) getDistLoop ::
  "ENV \<Rightarrow> GRAPH \<Rightarrow> EXTDATA \<Rightarrow> real \<Rightarrow> real \<Rightarrow> int \<Rightarrow> (real \<times> int) option"
where
  "getDistLoop E graph extdata bottleneck bottleneck_local currentNode = do {
     d \<leftarrow> rd (tree_bottleneckDistNode extdata) currentNode;
     if d < - (1 / 2) then do {
       bl \<leftarrow> bottleneckLocal E graph extdata bottleneck_local currentNode;
       let b = (if bottleneck < bl then bl else bottleneck);
       next \<leftarrow> rd (tree_parentNode extdata) currentNode;
       getDistLoop E graph extdata b bl next
     } else Some (bottleneck, currentNode)
   }"

definition bottleneckGetDist :: "ENV \<Rightarrow> GRAPH \<Rightarrow> EXTDATA \<Rightarrow> int \<Rightarrow> real option" where
  "bottleneckGetDist E graph extdata vertex_unmarked = do {
     (bottleneck, currentNode) \<leftarrow>
        (if vertex_unmarked = tree_root extdata then Some (0, vertex_unmarked)
         else getDistLoop E graph extdata 0 0 vertex_unmarked);
     d \<leftarrow> rd (tree_bottleneckDistNode extdata) currentNode;
     Some (max bottleneck d)
   }"

text \<open>The proper ancestors of a vertex, from its parent up to the root: \<open>isRootPath pn c us\<close>
  holds when following the parent pointers \<open>pn\<close> from \<open>c\<close> visits exactly \<open>us\<close> and then
  reaches the root's parent \<open>-1\<close>.\<close>

fun isRootPath :: "int list \<Rightarrow> int \<Rightarrow> int list \<Rightarrow> bool" where
  "isRootPath pn c [] = (c = - 1)"
| "isRootPath pn c (u # us) =
     (c = u \<and> u \<noteq> - 1 \<and> (case rd pn u of None \<Rightarrow> False | Some n \<Rightarrow> isRootPath pn n us))"

text \<open>The tree arrays are as long as the graph has vertices.\<close>

definition treeArraysOk :: "GRAPH \<Rightarrow> EXTDATA \<Rightarrow> bool" where
  "treeArraysOk graph extdata =
     (length (tree_deg extdata) = length (tree_parentNode extdata)
      \<and> length (tree_parentEdgeCost extdata) = length (tree_parentNode extdata)
      \<and> length (tree_bottleneckDistNode extdata) = length (tree_parentNode extdata)
      \<and> length (gterm graph) = length (tree_parentNode extdata)
      \<and> (case prize graph of None \<Rightarrow> True
         | Some ps \<Rightarrow> length ps = length (tree_parentNode extdata)))"

text \<open>The bottleneck values in the words of the specification, along the vertices
  \<open>c # cs\<close> walked from the start vertex towards the root: \<open>acc\<close> is the accumulator of
  the current degree-2 chain, \<open>mx\<close> the running maximum; the value listed for a vertex is the
  one stored at its parent.\<close>

fun spec_bottlenecks ::
  "(int \<Rightarrow> int) \<Rightarrow> (int \<Rightarrow> real) \<Rightarrow> (int \<Rightarrow> real) \<Rightarrow> real \<Rightarrow> real \<Rightarrow> int list \<Rightarrow> real list"
where
  "spec_bottlenecks deg ecost sub acc mx [] = []"
| "spec_bottlenecks deg ecost sub acc mx (c # cs) =
     (let acc' = (if deg c = 2 then acc + ecost c - sub c else ecost c);
          mx' = max mx acc'
      in mx' # spec_bottlenecks deg ecost sub acc' mx' cs)"

text \<open>The prize that the prize-collecting variant subtracts at a vertex: the prize of a
  terminal, nothing elsewhere and nothing outside the variant.\<close>

definition pcPrizeSub :: "ENV \<Rightarrow> GRAPH \<Rightarrow> int \<Rightarrow> real" where
  "pcPrizeSub E graph v =
     (case prize graph of None \<Rightarrow> 0
      | Some ps \<Rightarrow> if Is_term E (gterm graph ! nat v) then ps ! nat v else 0)"

subsection \<open>Equality rule-out: forbidden edges\<close>

definition bottleneckMarkEqualityEdge :: "int \<Rightarrow> EXTDATA \<Rightarrow> EXTDATA option" where
  "bottleneckMarkEqualityEdge edge extdata = do {
     f \<leftarrow> rd (sdeq_edgesIsForbidden extdata) (edge sdiv 2);
     if \<not> f then do {
       fl \<leftarrow> wr (sdeq_edgesIsForbidden extdata) (edge sdiv 2) True;
       Some (extdata\<lparr>sdeq_edgesIsForbidden := fl, sdeq_hasForbiddenEdges := True,
                     sdeq_resetStack := sdeq_resetStack extdata @ [edge sdiv 2]\<rparr>)
     } else Some extdata
   }"

text \<open>The inner loop of \<^verbatim>\<open>bottleneckMarkEqualityPath\<close> over the edges that leave the
  parent: at the edge whose head is the current node it runs the statements of
  \<^verbatim>\<open>bottleneckMarkEqualityEdge\<close> (written out in the source) and breaks.\<close>

partial_function (option) markEqualityPathEdges ::
  "ENV \<Rightarrow> GRAPH \<Rightarrow> int \<Rightarrow> int \<Rightarrow> EXTDATA \<Rightarrow> EXTDATA option"
where
  "markEqualityPathEdges E graph currentNode e extdata =
     (if e \<noteq> EAT_LAST E then do {
        h \<leftarrow> rd (head graph) e;
        if h = currentNode then bottleneckMarkEqualityEdge e extdata
        else do {
          e' \<leftarrow> rd (oeat graph) e;
          markEqualityPathEdges E graph currentNode e' extdata
        }
      } else Some extdata)"

partial_function (option) bottleneckMarkEqualityPath ::
  "ENV \<Rightarrow> GRAPH \<Rightarrow> int \<Rightarrow> int \<Rightarrow> EXTDATA \<Rightarrow> EXTDATA option"
where
  "bottleneckMarkEqualityPath E graph path_start path_end extdata =
     (if path_start \<noteq> path_end then do {
        parent \<leftarrow> rd (tree_parentNode extdata) path_start;
        e \<leftarrow> rd (outbeg graph) parent;
        extdata' \<leftarrow> markEqualityPathEdges E graph path_start e extdata;
        bottleneckMarkEqualityPath E graph parent path_end extdata'
      } else Some extdata)"

text \<open>The first loop of \<^verbatim>\<open>bottleneckMarkEqualityEdges\<close>, from the unmarked vertex up to the
  first vertex with a bottleneck: \<open>Inl\<close> is the state after the path has been marked (the
  function returns), \<open>Inr\<close> the common ancestor that the loop has reached.\<close>

partial_function (option) markEqualityEdgesUp ::
  "ENV \<Rightarrow> GRAPH \<Rightarrow> real \<Rightarrow> EXTDATA \<Rightarrow> int \<Rightarrow> real \<Rightarrow> int \<Rightarrow> (EXTDATA + int) option"
where
  "markEqualityEdgesUp E graph dist_eq extdata bottleneck_start bottleneck_local currentNode = do {
     d \<leftarrow> rd (tree_bottleneckDistNode extdata) currentNode;
     if d < - (1 / 2) then do {
       deg \<leftarrow> rd (tree_deg extdata) currentNode;
       bl \<leftarrow> bottleneckLocal E graph extdata bottleneck_local currentNode;
       let bs = (if deg = 2 then bottleneck_start else currentNode);
       parent \<leftarrow> rd (tree_parentNode extdata) currentNode;
       if EQ E bl dist_eq then do {
         extdata' \<leftarrow> bottleneckMarkEqualityPath E graph bs parent extdata;
         Some (Inl extdata')
       } else markEqualityEdgesUp E graph dist_eq extdata bs bl parent
     } else Some (Inr currentNode)
   }"

text \<open>The second loop, from the vertex with the marked root path up to that ancestor. Where
  the source arrives at its final \<^verbatim>\<open>assert(0)\<close>, nothing has been marked.\<close>

partial_function (option) markEqualityEdgesDown ::
  "ENV \<Rightarrow> GRAPH \<Rightarrow> real \<Rightarrow> EXTDATA \<Rightarrow> int \<Rightarrow> int \<Rightarrow> int \<Rightarrow> real \<Rightarrow> int \<Rightarrow> EXTDATA option"
where
  "markEqualityEdgesDown E graph dist_eq extdata vertex_pathmarked ancestor bottleneck_start
       bottleneck_local currentNode =
     (if currentNode \<noteq> ancestor then do {
        deg \<leftarrow> rd (tree_deg extdata) currentNode;
        bl \<leftarrow> bottleneckLocal E graph extdata bottleneck_local currentNode;
        let bs = (if deg = 2 then bottleneck_start else currentNode);
        parent \<leftarrow> rd (tree_parentNode extdata) currentNode;
        if EQ E bl dist_eq then
          bottleneckMarkEqualityPath E graph (if bs = UNKNOWN then vertex_pathmarked else bs)
            parent extdata
        else markEqualityEdgesDown E graph dist_eq extdata vertex_pathmarked ancestor bs bl parent
      } else Some extdata)"

definition bottleneckMarkEqualityEdges ::
  "ENV \<Rightarrow> GRAPH \<Rightarrow> real \<Rightarrow> int \<Rightarrow> int \<Rightarrow> EXTDATA \<Rightarrow> EXTDATA option"
where
  "bottleneckMarkEqualityEdges E graph dist_eq vertex_pathmarked vertex_unmarked extdata = do {
     r \<leftarrow> (if vertex_unmarked = tree_root extdata then Some (Inr vertex_unmarked)
           else markEqualityEdgesUp E graph dist_eq extdata UNKNOWN 0 vertex_unmarked);
     case r of
       Inl extdata' \<Rightarrow> Some extdata'
     | Inr ancestor \<Rightarrow>
         markEqualityEdgesDown E graph dist_eq extdata vertex_pathmarked ancestor UNKNOWN 0
           vertex_pathmarked
   }"

definition bottleneckIsEqualityDominated ::
  "ENV \<Rightarrow> GRAPH \<Rightarrow> real \<Rightarrow> int \<Rightarrow> int \<Rightarrow> int \<Rightarrow> EXTDATA \<Rightarrow> bool"
where
  "bottleneckIsEqualityDominated E g dist_eq edge_forbidden vertex1 vertex2 extdata =
     (let sd_eq = extreduce_distDataGetSdDoubleForbiddenEq E dist_eq edge_forbidden
                    vertex1 vertex2 extdata
      in if sd_eq < - (1 / 2) then False
         else if LE E sd_eq dist_eq then True
         else False)"

subsection \<open>Dominance tests\<close>

definition sdIsNonTrivial :: "real \<Rightarrow> bool" where
  "sdIsNonTrivial specialDist = (specialDist \<ge> - (1 / 2))"


definition bottleneckWithExtedgeIsDominated ::
  "ENV \<Rightarrow> GRAPH \<Rightarrow> int \<Rightarrow> int \<Rightarrow> int \<Rightarrow> real \<Rightarrow> EXTDATA \<Rightarrow> (bool \<times> EXTDATA) option"
where
  "bottleneckWithExtedgeIsDominated E graph extedge vertex_pathmarked vertex_unmarked specialDist
       extdata =
     (let hasSpecialDist = sdIsNonTrivial specialDist
      in if \<not> hasSpecialDist then Some (False, extdata)
         else do {
           c \<leftarrow> rd (cost graph) extedge;
           if LT E specialDist c then Some (True, extdata)
           else do {
             r \<leftarrow> (if LE E specialDist c then do {
                     vertex1 \<leftarrow> rd (head graph) extedge;
                     if bottleneckIsEqualityDominated E graph specialDist extedge vertex1
                          vertex_unmarked extdata
                     then map_option Some (bottleneckMarkEqualityEdge extedge extdata)
                     else Some None
                   } else Some None);
             case r of
               Some extdata' \<Rightarrow> Some (True, extdata')
             | None \<Rightarrow>
                 if vertex_pathmarked = vertex_unmarked then Some (False, extdata)
                 else do {
                   bottleneckDist \<leftarrow> bottleneckGetDist E graph extdata vertex_unmarked;
                   if LT E specialDist bottleneckDist then Some (True, extdata)
                   else if LE E specialDist bottleneckDist then do {
                     vertex1 \<leftarrow> rd (head graph) extedge;
                     if bottleneckIsEqualityDominated E graph specialDist extedge vertex1
                          vertex_unmarked extdata
                     then do {
                       extdata' \<leftarrow> bottleneckMarkEqualityEdges E graph specialDist
                                     vertex_pathmarked vertex_unmarked extdata;
                       Some (True, extdata')
                     } else Some (False, extdata)
                   } else Some (False, extdata)
                 }
           }
         })"



text \<open>The facts about the forbidden edges that the marking keeps: no edge id is twice on the
  reset stack, every id on the stack is flagged in \<open>sdeq_edgesIsForbidden\<close>, and the stack
  is empty unless \<open>sdeq_hasForbiddenEdges\<close> is set.\<close>

definition sdeqInv :: "EXTDATA \<Rightarrow> bool" where
  "sdeqInv extdata =
     (distinct (sdeq_resetStack extdata)
      \<and> list_all (\<lambda>i. rd (sdeq_edgesIsForbidden extdata) i = Some True) (sdeq_resetStack extdata)
      \<and> (sdeq_resetStack extdata = [] \<or> sdeq_hasForbiddenEdges extdata))"

text \<open>One marking step as the claim describes it: from \<open>x\<close> to \<open>y\<close> either nothing changes,
  or the id \<open>i\<close> is appended to the stack at the moment its flag flips from false to true
  and \<open>sdeq_hasForbiddenEdges\<close> is set; nothing else changes.\<close>

definition sdeqMarks :: "EXTDATA \<Rightarrow> int list \<Rightarrow> EXTDATA \<Rightarrow> bool" where
  "sdeqMarks x ids y =
     (y = x\<lparr>sdeq_edgesIsForbidden := sdeq_edgesIsForbidden y,
            sdeq_hasForbiddenEdges := sdeq_hasForbiddenEdges y,
            sdeq_resetStack := sdeq_resetStack y\<rparr>
      \<and> sdeq_resetStack y = sdeq_resetStack x @ ids
      \<and> distinct ids
      \<and> length (sdeq_edgesIsForbidden y) = length (sdeq_edgesIsForbidden x)
      \<and> list_all (\<lambda>i. rd (sdeq_edgesIsForbidden x) i = Some False) ids
      \<and> list_all (\<lambda>i. rd (sdeq_edgesIsForbidden y) i = Some True) ids
      \<and> list_all (\<lambda>k. sdeq_edgesIsForbidden y ! k = sdeq_edgesIsForbidden x ! k \<or> int k \<in> set ids)
           [0..<length (sdeq_edgesIsForbidden x)]
      \<and> sdeq_hasForbiddenEdges y = (sdeq_hasForbiddenEdges x \<or> ids \<noteq> []))"

subsection \<open>MST objective rule-out\<close>


text \<open>The cost the MST weight is compared with (computed at the head of both
  \<^verbatim>\<open>mstCompRuleOut\<close> and \<^verbatim>\<open>mstLevelLeafTryExtMst\<close>): the tree cost, minus the prizes of
  the inner nodes in the prize-collecting variant.\<close>

definition ruleOutTreeCost :: "GRAPH \<Rightarrow> EXTDATA \<Rightarrow> real" where
  "ruleOutTreeCost graph extdata =
     (if prize graph \<noteq> None then tree_cost extdata - tree_innerPrize (pcdata extdata)
      else tree_cost extdata)"



subsection \<open>Special distances from a leaf of the top component to its ancestors\<close>





subsection \<open>Removing levels and components\<close>

definition extreduce_mstLevelRemove :: "REDDATA \<Rightarrow> REDDATA option" where
  "extreduce_mstLevelRemove red = do {
     let horizontal_nlevels = extreduce_mldistsNlevels (sds_horizontal red);
     let vertical_nlevels = extreduce_mldistsNlevels (sds_vertical red);
     red' \<leftarrow>
       (if horizontal_nlevels = vertical_nlevels then do {
          h \<leftarrow> extreduce_mldistsLevelRemoveTop (sds_horizontal red);
          b \<leftarrow> graph_csrdepo_removeTop (msts_levelbase red);
          Some (red\<lparr>sds_horizontal := h, msts_levelbase := b\<rparr>)
        } else Some red);
     v \<leftarrow> extreduce_mldistsLevelRemoveTop (sds_vertical red');
     Some (red'\<lparr>sds_vertical := v\<rparr>)
   }"

definition extreduce_mstCompRemove :: "GRAPH \<Rightarrow> EXTDATA \<Rightarrow> EXTDATA option" where
  "extreduce_mstCompRemove graph extdata =
     (let msts_comp_level = graph_csrdepo_getNcsrs (msts_comp (reddata extdata)) - 1
      in if msts_comp_level > tree_depth extdata then do {
           c \<leftarrow> graph_csrdepo_removeTop (msts_comp (reddata extdata));
           Some (extdata\<lparr>reddata := (reddata extdata)\<lparr>msts_comp := c\<rparr>\<rparr>)
         } else Some extdata)"

text \<open>The retraction in the words of the specification: pop the horizontal level, the
  levelbase MST and the vertical level, in that order.\<close>

definition spec_level_remove :: "REDDATA \<Rightarrow> REDDATA option" where
  "spec_level_remove red = do {
     h \<leftarrow> extreduce_mldistsLevelRemoveTop (sds_horizontal red);
     b \<leftarrow> graph_csrdepo_removeTop (msts_levelbase red);
     v \<leftarrow> extreduce_mldistsLevelRemoveTop (sds_vertical red);
     Some (red\<lparr>sds_horizontal := h, msts_levelbase := b, sds_vertical := v\<rparr>)
   }"

subsection \<open>Prize-collecting distance marks\<close>

definition EXT_PC_SDMAXVISITS :: int where
  "EXT_PC_SDMAXVISITS = 20"

definition pcSdMarkSingle :: "int \<Rightarrow> real \<Rightarrow> PCDATA \<Rightarrow> PCDATA option" where
  "pcSdMarkSingle entry val pcd = do {
     old \<leftarrow> rdp (pcSdToNode pcd) entry;
     if old < - (1 / 2) then do {
       cands \<leftarrow> wr (pcSdCands pcd) (nPcSdCands pcd) entry;
       marks \<leftarrow> wrp (pcSdToNode pcd) entry val;
       Some (pcd\<lparr>pcSdCands := cands, nPcSdCands := nPcSdCands pcd + 1,
                  pcSdToNode := Some marks\<rparr>)
     } else if val < old then do {
       marks \<leftarrow> wrp (pcSdToNode pcd) entry val;
       Some (pcd\<lparr>pcSdToNode := Some marks\<rparr>)
     } else Some pcd
   }"

text \<open>The inner loop of \<^verbatim>\<open>pcSdToNodeMark\<close> over the edges \<open>i2\<close> of a vertex \<open>head\<close> outside
  the tree; it returns the visit counter \<open>count2\<close> with the marks.\<close>

partial_function (option) pcSdToNodeMarkInner ::
  "GRAPH \<Rightarrow> int list \<Rightarrow> int \<Rightarrow> real \<Rightarrow> int \<Rightarrow> int \<Rightarrow> int \<Rightarrow> int \<Rightarrow> PCDATA \<Rightarrow> (int \<times> PCDATA) option"
where
  "pcSdToNodeMarkInner graph tdeg startvertex edgecost hv end2 i2 count2 pcd =
     (if i2 \<noteq> end2 then do {
        head2 \<leftarrow> rd (dcsr_head graph) i2;
        deg2 \<leftarrow> rd tdeg head2;
        pcd' \<leftarrow> (if deg2 > 0 \<and> head2 \<noteq> startvertex then do {
                   edgecost2 \<leftarrow> rd (dcsr_cost graph) i2;
                   p \<leftarrow> rdp (prize graph) hv;
                   pcSdMarkSingle head2
                     (max (max edgecost edgecost2) (edgecost + edgecost2 - p)) pcd
                 } else Some pcd);
        if count2 > EXT_PC_SDMAXVISITS then Some (count2 + 1, pcd')
        else pcSdToNodeMarkInner graph tdeg startvertex edgecost hv end2 (i2 + 1) (count2 + 1) pcd'
      } else Some (count2, pcd))"

partial_function (option) pcSdToNodeMarkOuter ::
  "GRAPH \<Rightarrow> int list \<Rightarrow> int \<Rightarrow> int \<Rightarrow> int \<Rightarrow> int \<Rightarrow> int \<Rightarrow> PCDATA \<Rightarrow> PCDATA option"
where
  "pcSdToNodeMarkOuter graph tdeg startvertex iend i count1 count2 pcd =
     (if i \<noteq> iend then do {
        edgecost \<leftarrow> rd (dcsr_cost graph) i;
        hv \<leftarrow> rd (dcsr_head graph) i;
        deg \<leftarrow> rd tdeg hv;
        (count2', pcd') \<leftarrow>
          (if deg = 0 then do {
             r \<leftarrow> rd (dcsr_range graph) hv;
             pcSdToNodeMarkInner graph tdeg startvertex edgecost hv (snd r) (fst r) count2 pcd
           } else do {
             pcd' \<leftarrow> pcSdMarkSingle hv edgecost pcd;
             Some (count2, pcd')
           });
        if count1 > EXT_PC_SDMAXVISITS then Some pcd'
        else pcSdToNodeMarkOuter graph tdeg startvertex iend (i + 1) (count1 + 1) count2' pcd'
      } else Some pcd)"

definition pcSdToNodeMark :: "GRAPH \<Rightarrow> int \<Rightarrow> EXTDATA \<Rightarrow> EXTDATA option" where
  "pcSdToNodeMark graph startvertex extdata = do {
     r \<leftarrow> rd (dcsr_range graph) startvertex;
     pcd \<leftarrow> pcSdToNodeMarkOuter graph (tree_deg extdata) startvertex (snd r) (fst r) 0 0
             ((pcdata extdata)\<lparr>nPcSdCands := 0\<rparr>);
     Some (extdata\<lparr>pcdata := pcd\<rparr>)
   }"

fun pcSdToNodeUnmarkLoop :: "int list \<Rightarrow> int list \<Rightarrow> real list \<Rightarrow> real list option" where
  "pcSdToNodeUnmarkLoop cands [] marks = Some marks"
| "pcSdToNodeUnmarkLoop cands (i # is) marks = do {
     cand \<leftarrow> rd cands i;
     marks' \<leftarrow> wr marks cand (- 1);
     pcSdToNodeUnmarkLoop cands is marks'
   }"

text \<open>\<^verbatim>\<open>pcSdToNodeUnmark\<close> writes through \<^verbatim>\<open>pcSdToNode\<close> once for each candidate; with no
  candidate it writes nothing, also if the pointer is \<^verbatim>\<open>NULL\<close>.\<close>

definition pcSdToNodeUnmark :: "GRAPH \<Rightarrow> int \<Rightarrow> EXTDATA \<Rightarrow> EXTDATA option" where
  "pcSdToNodeUnmark graph startvertex extdata =
     (case pcSdToNode (pcdata extdata) of
        None \<Rightarrow> if nPcSdCands (pcdata extdata) \<le> 0 then Some extdata else None
      | Some marks0 \<Rightarrow> do {
          marks \<leftarrow> pcSdToNodeUnmarkLoop (pcSdCands (pcdata extdata))
                     (map int [0..<nat (nPcSdCands (pcdata extdata))]) marks0;
          Some (extdata\<lparr>pcdata := (pcdata extdata)\<lparr>pcSdToNode := Some marks\<rparr>\<rparr>)
        })"

subsection \<open>Bottleneck tests against the non-leaves of the tree\<close>

fun bottleneckCheckNonLeaves_pc_loop ::
  "ENV \<Rightarrow> GRAPH \<Rightarrow> int \<Rightarrow> int \<Rightarrow> int \<Rightarrow> int list \<Rightarrow> EXTDATA \<Rightarrow> (bool \<times> EXTDATA) option"
where
  "bottleneckCheckNonLeaves_pc_loop E graph edge2neighbor neighbor neighbor_base [] extdata =
     Some (False, extdata)"
| "bottleneckCheckNonLeaves_pc_loop E graph edge2neighbor neighbor neighbor_base (c # cs) extdata =
     do {
       cand \<leftarrow> rd (pcSdCands (pcdata extdata)) c;
       deg \<leftarrow> rd (tree_deg extdata) cand;
       if deg \<le> 1
       then bottleneckCheckNonLeaves_pc_loop E graph edge2neighbor neighbor neighbor_base cs extdata
       else do {
         specialDist \<leftarrow> extGetSd E graph neighbor cand extdata;
         (dominated, extdata') \<leftarrow>
            bottleneckWithExtedgeIsDominated E graph edge2neighbor neighbor_base cand specialDist
              extdata;
         if dominated then Some (True, extdata')
         else bottleneckCheckNonLeaves_pc_loop E graph edge2neighbor neighbor neighbor_base cs
                extdata'
       }
     }"

definition bottleneckCheckNonLeaves_pc ::
  "ENV \<Rightarrow> GRAPH \<Rightarrow> int \<Rightarrow> EXTDATA \<Rightarrow> (bool \<times> EXTDATA) option"
where
  "bottleneckCheckNonLeaves_pc E graph edge2neighbor extdata = do {
     neighbor \<leftarrow> rd (head graph) edge2neighbor;
     neighbor_base \<leftarrow> rd (tail graph) edge2neighbor;
     bottleneckCheckNonLeaves_pc_loop E graph edge2neighbor neighbor neighbor_base
       (map int [0..<nat (nPcSdCands (pcdata extdata))]) extdata
   }"

fun bottleneckCheckNonLeaves_loop ::
  "ENV \<Rightarrow> GRAPH \<Rightarrow> int \<Rightarrow> int \<Rightarrow> int \<Rightarrow> int list \<Rightarrow> EXTDATA \<Rightarrow> (bool \<times> EXTDATA) option"
where
  "bottleneckCheckNonLeaves_loop E graph edge2neighbor neighbor neighbor_base [] extdata =
     Some (False, extdata)"
| "bottleneckCheckNonLeaves_loop E graph edge2neighbor neighbor neighbor_base (i # is) extdata =
     do {
       node \<leftarrow> rd (tree_innerNodes extdata) i;
       specialDist \<leftarrow> extGetSd E graph neighbor node extdata;
       (dominated, extdata') \<leftarrow>
          bottleneckWithExtedgeIsDominated E graph edge2neighbor neighbor_base node specialDist
            extdata;
       if dominated then Some (True, extdata')
       else bottleneckCheckNonLeaves_loop E graph edge2neighbor neighbor neighbor_base is extdata'
     }"

definition bottleneckCheckNonLeaves ::
  "ENV \<Rightarrow> GRAPH \<Rightarrow> int \<Rightarrow> EXTDATA \<Rightarrow> (bool \<times> EXTDATA) option"
where
  "bottleneckCheckNonLeaves E graph edge2neighbor extdata = do {
     neighbor \<leftarrow> rd (head graph) edge2neighbor;
     neighbor_base \<leftarrow> rd (tail graph) edge2neighbor;
     bottleneckCheckNonLeaves_loop E graph edge2neighbor neighbor neighbor_base
       (map int [0..<nat (tree_ninnerNodes extdata)]) extdata
   }"

subsection \<open>Adding a leaf to the vertical distances of a level\<close>

text \<open>Writing cell \<open>j\<close> of the distances of the empty slot of the vertical store.\<close>

definition verticalEmptySlotWrite :: "int \<Rightarrow> real \<Rightarrow> EXTDATA \<Rightarrow> EXTDATA option" where
  "verticalEmptySlotWrite j v extdata = do {
     ds \<leftarrow> wr (slot_dists (ml_emptyslot (sds_vertical (reddata extdata)))) j v;
     Some (extdata\<lparr>reddata := (reddata extdata)
             \<lparr>sds_vertical := mldistsEmptySlotPutDists ds (sds_vertical (reddata extdata))\<rparr>\<rparr>)
   }"

text \<open>The value that the two store-filling routines write for a special distance.\<close>

definition sdStored :: "ENV \<Rightarrow> real \<Rightarrow> real" where
  "sdStored E specialDist = (if specialDist \<ge> - (1 / 2) then specialDist else FARAWAY E)"

fun mstLevelLeafSetVerticalSDs_loop ::
  "ENV \<Rightarrow> GRAPH \<Rightarrow> int \<Rightarrow> int \<Rightarrow> int \<Rightarrow> int list \<Rightarrow> EXTDATA \<Rightarrow> (bool \<times> EXTDATA) option"
where
  "mstLevelLeafSetVerticalSDs_loop E graph edge2neighbor neighbor neighbor_base [] extdata =
     Some (False, extdata)"
| "mstLevelLeafSetVerticalSDs_loop E graph edge2neighbor neighbor neighbor_base (j # js) extdata =
     do {
       leaf \<leftarrow> rd (tree_leaves extdata) j;
       specialDist \<leftarrow> extGetSd E graph neighbor leaf extdata;
       written \<leftarrow> verticalEmptySlotWrite j (sdStored E specialDist) extdata;
       (dominated, extdata') \<leftarrow>
          bottleneckWithExtedgeIsDominated E graph edge2neighbor neighbor_base leaf specialDist
            written;
       if dominated then Some (True, extdata')
       else mstLevelLeafSetVerticalSDs_loop E graph edge2neighbor neighbor neighbor_base js
              extdata'
     }"

definition mstLevelLeafSetVerticalSDs ::
  "ENV \<Rightarrow> GRAPH \<Rightarrow> int \<Rightarrow> EXTDATA \<Rightarrow> (bool \<times> EXTDATA) option"
where
  "mstLevelLeafSetVerticalSDs E graph edge2neighbor extdata = do {
     adjedgecosts \<leftarrow> extreduce_mldistsEmptySlotTargetDists (sds_vertical (reddata extdata));
     neighbor \<leftarrow> rd (head graph) edge2neighbor;
     neighbor_base \<leftarrow> rd (tail graph) edge2neighbor;
     mstLevelLeafSetVerticalSDs_loop E graph edge2neighbor neighbor neighbor_base
       (map int [0..<nat (tree_nleaves extdata)]) extdata
   }"

text \<open>The loop of \<^verbatim>\<open>mstLevelLeafAdjustVerticalSDs\<close> that shifts the distances behind the
  neighbor base one cell to the left.\<close>

fun shiftLeft_loop :: "int list \<Rightarrow> real list \<Rightarrow> real list option" where
  "shiftLeft_loop [] dists = Some dists"
| "shiftLeft_loop (i # is) dists = do {
     d \<leftarrow> rd dists i;
     dists' \<leftarrow> wr dists (i - 1) d;
     shiftLeft_loop is dists'
   }"

definition mstLevelLeafAdjustVerticalSDs :: "ENV \<Rightarrow> int \<Rightarrow> EXTDATA \<Rightarrow> EXTDATA option" where
  "mstLevelLeafAdjustVerticalSDs E neighbor_base extdata =
     (if extIsAtInitialComp E extdata then Some extdata
      else do {
        dists \<leftarrow> extreduce_mldistsEmptySlotTargetDists (sds_vertical (reddata extdata));
        let leaves_pos = extLeafFindPos E extdata neighbor_base;
        dists' \<leftarrow> shiftLeft_loop
                    (map (\<lambda>k. leaves_pos + 1 + int k)
                       [0..<nat (tree_nleaves extdata - (leaves_pos + 1))]) dists;
        Some (extdata\<lparr>reddata := (reddata extdata)
                \<lparr>sds_vertical := mldistsEmptySlotPutDists dists' (sds_vertical (reddata extdata))\<rparr>\<rparr>)
      })"

definition mstLevelLeafInit :: "ENV \<Rightarrow> GRAPH \<Rightarrow> int \<Rightarrow> int \<Rightarrow> EXTDATA \<Rightarrow> EXTDATA option" where
  "mstLevelLeafInit E graph neighbor_base neighbor extdata = do {
     let isPc = (pcSdToNode (pcdata extdata) \<noteq> None);
     v \<leftarrow> extreduce_mldistsEmptySlotSetBase neighbor (sds_vertical (reddata extdata));
     marked \<leftarrow> bottleneckMarkRootPath E graph neighbor_base
                (extdata\<lparr>reddata := (reddata extdata)\<lparr>sds_vertical := v\<rparr>\<rparr>);
     if isPc then pcSdToNodeMark graph neighbor marked else Some marked
   }"

definition mstLevelLeafExit ::
  "ENV \<Rightarrow> GRAPH \<Rightarrow> int \<Rightarrow> int \<Rightarrow> bool \<Rightarrow> EXTDATA \<Rightarrow> EXTDATA option"
where
  "mstLevelLeafExit E graph neighbor_base neighbor ruledOut extdata = do {
     sealed \<leftarrow>
       (if ruledOut then do {
          v \<leftarrow> extreduce_mldistsEmptySlotReset (sds_vertical (reddata extdata));
          Some (extdata\<lparr>reddata := (reddata extdata)\<lparr>sds_vertical := v\<rparr>\<rparr>)
        } else do {
          adjusted \<leftarrow> mstLevelLeafAdjustVerticalSDs E neighbor_base extdata;
          v \<leftarrow> extreduce_mldistsEmptySlotSetFilled (sds_vertical (reddata adjusted));
          Some (adjusted\<lparr>reddata := (reddata adjusted)\<lparr>sds_vertical := v\<rparr>\<rparr>)
        });
     unmarked \<leftarrow> bottleneckUnmarkRootPath graph neighbor_base sealed;
     if graph_pc_isPc graph then pcSdToNodeUnmark graph neighbor unmarked else Some unmarked
   }"

definition mstLevelLeafTryExtMst :: "ENV \<Rightarrow> GRAPH \<Rightarrow> int \<Rightarrow> EXTDATA \<Rightarrow> bool option" where
  "mstLevelLeafTryExtMst E graph extneighbor extdata = do {
     adjcosts \<leftarrow> extreduce_mldistsEmptySlotTargetDists (sds_vertical (reddata extdata));
     let tcost = ruleOutTreeCost graph extdata;
     topmst \<leftarrow> graph_csrdepo_getTopCSR (msts_comp (reddata extdata));
     let extweight = reduce_dcmstGetExtWeight E topmst adjcosts;
     Some (LT E extweight tcost)
   }"

definition extreduce_mstLevelVerticalAddLeaf ::
  "ENV \<Rightarrow> GRAPH \<Rightarrow> int \<Rightarrow> EXTDATA \<Rightarrow> (bool \<times> EXTDATA) option"
where
  "extreduce_mstLevelVerticalAddLeaf E graph edge2neighbor extdata = do {
     neighbor \<leftarrow> rd (head graph) edge2neighbor;
     neighbor_base \<leftarrow> rd (tail graph) edge2neighbor;
     let isPc = graph_pc_isPc graph;
     started \<leftarrow> mstLevelLeafInit E graph neighbor_base neighbor extdata;
     (leafRuledOut, extdata1) \<leftarrow> mstLevelLeafSetVerticalSDs E graph edge2neighbor started;
     leafRuledOut2 \<leftarrow>
       (if \<not> leafRuledOut then mstLevelLeafTryExtMst E graph neighbor extdata1
        else Some leafRuledOut);
     (leafRuledOut3, extdata3) \<leftarrow>
       (if isPc \<and> \<not> leafRuledOut2 then bottleneckCheckNonLeaves_pc E graph edge2neighbor extdata1
        else Some (leafRuledOut2, extdata1));
     (leafRuledOut4, extdata4) \<leftarrow>
       (if \<not> leafRuledOut3 then bottleneckCheckNonLeaves E graph edge2neighbor extdata3
        else Some (leafRuledOut3, extdata3));
     extdata' \<leftarrow> mstLevelLeafExit E graph neighbor_base neighbor leafRuledOut4 extdata4;
     Some (leafRuledOut4, extdata')
   }"




subsection \<open>Horizontal distances of a level\<close>






subsection \<open>The root level\<close>






subsection \<open>Closing a level: the levelbase MST\<close>















subsection \<open>The special distances held by the stores\<close>










subsection \<open>Concrete states used as test inputs\<close>

text \<open>An environment: the tolerance and the sentinel of SCIP-Jack, a distance oracle that
  knows no distance, and a DCMST stand-in: the weight of an MST is half the sum of its edge
  entries, and a new node is linked by the cheapest of its adjacency costs to the nodes of
  the MST.\<close>

definition cheapest :: "CSR \<Rightarrow> real list \<Rightarrow> real" where
  "cheapest c a = foldr min (take (nat (nnodes c)) a) (10 ^ 15)"

definition env0 :: ENV where
  "env0 = \<lparr> EPSILON = 1 / 1000000, FARAWAY = 10 ^ 15, EAT_LAST = - 1,
            EXT_STATE_MARKED = 2, STP_EXT_MAXGRAD = 9,
            Is_term = (\<lambda>t. t \<ge> 0),
            extStackGetPosition = (\<lambda>_. 1),
            extIsAtInitialComp = (\<lambda>_. False),
            extInitialCompIsStar = (\<lambda>_. False),
            extIsAtInitialGenStar = (\<lambda>_. False),
            extStackGetOutEdgesStart = (\<lambda>e p. extstack_start e ! nat p),
            extStackGetOutEdgesEnd = (\<lambda>e p. extstack_start e ! nat (p + 1)),
            extLeafFindPos = (\<lambda>e v. int (length (takeWhile (\<lambda>l. l \<noteq> v) (tree_leaves e)))),
            extreduce_distDataGetSdDouble = (\<lambda>_ _. - 1),
            extreduce_distDataGetSdDoubleForbidden = (\<lambda>_ _ _. 2),
            extreduce_distDataGetSdDoubleForbiddenEq = (\<lambda>_ _ _ _ _. - 1),
            reduce_dcmstGetWeight = (\<lambda>c. sum_list (csr_cost c) / 2),
            reduce_dcmstGetExtWeight = (\<lambda>c a. sum_list (csr_cost c) / 2 + cheapest c a),
            reduce_dcmstAddNode =
              (\<lambda>p a c. c\<lparr>csr_cost := csr_cost p @ [cheapest p a, cheapest p a]\<rparr>),
            reduce_dcmstAddNodeInplace =
              (\<lambda>a c. c\<lparr>nnodes := nnodes c + 1, nedges_max := nedges_max c + 2,
                        csr_cost := csr_cost c @ [cheapest c a, cheapest c a]\<rparr>),
            reduce_dcmstGet1NodeMst = (\<lambda>c. c\<lparr>csr_start := [0, 0]\<rparr>),
            graph_csr_copy = (\<lambda>p c. p) \<rparr>"

definition mldists0 :: MLDISTS where
  "mldists0 = \<lparr> ml_levels = [], ml_emptyslot = mldistsFreshSlot 0 \<rparr>"

definition depo0 :: CSRDEPO where
  "depo0 = \<lparr> depo_csrs = [], depo_topIsEmpty = False \<rparr>"

definition pcdata0 :: PCDATA where
  "pcdata0 = \<lparr> pcSdToNode = None, pcSdCands = [], nPcSdCands = - 1, tree_innerPrize = 0 \<rparr>"

definition reddata0 :: REDDATA where
  "reddata0 = \<lparr> sds_vertical = mldists0, sds_horizontal = mldists0, msts_comp = depo0,
                 msts_levelbase = depo0, dcmst_adjcosts = replicate 8 (- 1) \<rparr>"

text \<open>The path \<open>0 - 1 - 2\<close> with both edges of cost 1: edges 0 and 1 join 0 and 1, edges 2
  and 3 join 1 and 2.\<close>

definition graph_path3 :: GRAPH where
  "graph_path3 = \<lparr> knots = 3, edges = 4, head = [1, 0, 2, 1], tail = [0, 1, 1, 2],
      cost = [1, 1, 1, 1], outbeg = [0, 1, 3], oeat = [- 1, 2, - 1, - 1],
      gterm = [0, - 1, 0], prize = None,
      dcsr_range = [(0, 1), (1, 3), (3, 4)], dcsr_head = [1, 0, 2, 1],
      dcsr_cost = [1, 1, 1, 1] \<rparr>"

text \<open>A tree with the three leaves 0, 1, 2 below the inner node 3, of cost 2, whose
  component MST (two edges, four edge entries) has weight 2; an equality edge has been
  forbidden before.\<close>

definition mst3 :: CSR where
  "mst3 = \<lparr> nnodes = 3, nedges_max = 4, csr_start = [0, 1, 3, 4], csr_head = [1, 0, 2, 1],
            csr_cost = [1, 1, 1, 1] \<rparr>"

definition ext_eq3 :: EXTDATA where
  "ext_eq3 = \<lparr> tree_bottleneckDistNode = [- 1, - 1, - 1, - 1],
      tree_parentEdgeCost = [- 1, 1, 1, 0], tree_parentNode = [- 1, 3, 3, 0],
      tree_deg = [1, 1, 1, 3], tree_root = 0, tree_leaves = [0, 1, 2], tree_nleaves = 3,
      tree_innerNodes = [3], tree_ninnerNodes = 1, tree_cost = 2, tree_depth = 1,
      sdeq_edgesIsForbidden = [True, False, False], sdeq_hasForbiddenEdges = True,
      sdeq_resetStack = [0], extstack_data = [], extstack_start = [0], extstack_state = [],
      pcdata = pcdata0,
      reddata = reddata0\<lparr>msts_comp := \<lparr> depo_csrs = [mst3], depo_topIsEmpty = False \<rparr>\<rparr> \<rparr>"

text \<open>The path \<open>0 - t - 2\<close> with \<open>t = 1\<close> a non-leaf terminal of prize 0.4 and both edges of
  cost 1, in the prize-collecting variant; the tree is rooted at 0.\<close>

definition graph_pcpath :: GRAPH where
  "graph_pcpath = \<lparr> knots = 3, edges = 4, head = [1, 0, 2, 1], tail = [0, 1, 1, 2],
      cost = [1, 1, 1, 1], outbeg = [0, 1, 3], oeat = [- 1, 2, - 1, - 1],
      gterm = [- 1, 0, - 1], prize = Some [0, 4 / 10, 0],
      dcsr_range = [(0, 1), (1, 3), (3, 4)], dcsr_head = [1, 0, 2, 1],
      dcsr_cost = [1, 1, 1, 1] \<rparr>"

definition ext_pcpath :: EXTDATA where
  "ext_pcpath = \<lparr> tree_bottleneckDistNode = [- 1, - 1, - 1],
      tree_parentEdgeCost = [- 1, 1, 1], tree_parentNode = [- 1, 0, 1],
      tree_deg = [1, 2, 1], tree_root = 0, tree_leaves = [0, 2], tree_nleaves = 2,
      tree_innerNodes = [1], tree_ninnerNodes = 1, tree_cost = 2, tree_depth = 2,
      sdeq_edgesIsForbidden = [False, False], sdeq_hasForbiddenEdges = False,
      sdeq_resetStack = [], extstack_data = [0, 2], extstack_start = [0, 1, 2],
      extstack_state = [2, 2],
      pcdata = \<lparr> pcSdToNode = Some [- 1, - 1, - 1], pcSdCands = [0, 0, 0], nPcSdCands = - 1,
                 tree_innerPrize = 4 / 10 \<rparr>,
      reddata = reddata0 \<rparr>"

text \<open>Stores in the middle of an extension step: the vertical distances have the root level
  and a new level, the horizontal distances and the levelbase depot only the root level.\<close>

definition level0 :: MLLEVEL where
  "level0 = \<lparr> lvl_maxslots = 1, lvl_ntargets = 0,
     lvl_slots = [\<lparr> slot_base = 0, slot_dists = [], slot_ids = [] \<rparr>], lvl_closed = True \<rparr>"

definition level1 :: MLLEVEL where
  "level1 = \<lparr> lvl_maxslots = 9, lvl_ntargets = 1, lvl_slots = [], lvl_closed = False \<rparr>"

definition mst1 :: CSR where
  "mst1 = \<lparr> nnodes = 1, nedges_max = 0, csr_start = [0, 0], csr_head = [], csr_cost = [] \<rparr>"

definition reddata_midstep :: REDDATA where
  "reddata_midstep =
     \<lparr> sds_vertical = \<lparr> ml_levels = [level1, level0], ml_emptyslot = mldistsFreshSlot 1 \<rparr>,
       sds_horizontal = \<lparr> ml_levels = [level0], ml_emptyslot = mldistsFreshSlot 0 \<rparr>,
       msts_comp = \<lparr> depo_csrs = [mst1], depo_topIsEmpty = False \<rparr>,
       msts_levelbase = \<lparr> depo_csrs = [mst1], depo_topIsEmpty = False \<rparr>,
       dcmst_adjcosts = replicate 8 (- 1) \<rparr>"

text \<open>The same stores after the horizontal distances and the levelbase MST of the new level
  have been added, and with a component MST on the component depot.\<close>

definition reddata_full :: REDDATA where
  "reddata_full =
     \<lparr> sds_vertical = \<lparr> ml_levels = [level1\<lparr>lvl_closed := True\<rparr>, level0],
                         ml_emptyslot = mldistsFreshSlot 1 \<rparr>,
       sds_horizontal = \<lparr> ml_levels = [level1\<lparr>lvl_closed := True\<rparr>, level0],
                           ml_emptyslot = mldistsFreshSlot 0 \<rparr>,
       msts_comp = \<lparr> depo_csrs = [mst3, mst1], depo_topIsEmpty = False \<rparr>,
       msts_levelbase = \<lparr> depo_csrs = [mst1, mst1], depo_topIsEmpty = False \<rparr>,
       dcmst_adjcosts = replicate 8 (- 1) \<rparr>"





text \<open>The path \<open>0 - 1 - 2 - 3\<close> with edge costs 1, 4, 1 (edges 0 and 1, 2 and 3, 4 and 5). The
  tree is \<open>0 - 1 - 2\<close>, rooted at 0, with the leaves 0 and 2 and the inner node 1; it is to
  be extended from the leaf 2 along edge 4 to the neighbor 3. A level has been initiated on
  the vertical store, and the component MST of the two leaves has weight 5.\<close>

definition graph_path4 :: GRAPH where
  "graph_path4 = \<lparr> knots = 4, edges = 6, head = [1, 0, 2, 1, 3, 2], tail = [0, 1, 1, 2, 2, 3],
      cost = [1, 1, 4, 4, 1, 1], outbeg = [0, 1, 3, 5], oeat = [- 1, 2, - 1, 4, - 1, - 1],
      gterm = [0, - 1, 0, 0], prize = None,
      dcsr_range = [(0, 1), (1, 3), (3, 5), (5, 6)], dcsr_head = [1, 0, 2, 1, 3, 2],
      dcsr_cost = [1, 1, 4, 4, 1, 1] \<rparr>"

definition mst2 :: CSR where
  "mst2 = \<lparr> nnodes = 2, nedges_max = 2, csr_start = [0, 1, 2], csr_head = [1, 0],
            csr_cost = [5, 5] \<rparr>"

definition ext_grow :: EXTDATA where
  "ext_grow = \<lparr> tree_bottleneckDistNode = [- 1, - 1, - 1, - 1],
      tree_parentEdgeCost = [- 1, 1, 4, - 1], tree_parentNode = [- 1, 0, 1, - 1],
      tree_deg = [1, 2, 1, 0], tree_root = 0, tree_leaves = [0, 2], tree_nleaves = 2,
      tree_innerNodes = [1], tree_ninnerNodes = 1, tree_cost = 5, tree_depth = 1,
      sdeq_edgesIsForbidden = [False, False, False], sdeq_hasForbiddenEdges = False,
      sdeq_resetStack = [], extstack_data = [0, 2], extstack_start = [0, 1, 2],
      extstack_state = [2, 2],
      pcdata = pcdata0,
      reddata = reddata0\<lparr>
        sds_vertical := \<lparr> ml_levels = [level1, level0], ml_emptyslot = mldistsFreshSlot 1 \<rparr>,
        sds_horizontal := \<lparr> ml_levels = [level0], ml_emptyslot = mldistsFreshSlot 0 \<rparr>,
        msts_comp := \<lparr> depo_csrs = [mst2, mst1], depo_topIsEmpty = False \<rparr>,
        msts_levelbase := \<lparr> depo_csrs = [mst1], depo_topIsEmpty = False \<rparr>\<rparr> \<rparr>"

text \<open>The distance oracle of the example: the neighbor 3 has the special distance 1 to the
  leaf 2 and \<open>sd\<close> to the inner node 1; its distance to the leaf 0 is unknown.\<close>

definition env_grow :: "real \<Rightarrow> ENV" where
  "env_grow sd = env0\<lparr>extreduce_distDataGetSdDouble :=
     (\<lambda>u v. if u = 3 \<and> v = 2 then 1 else if u = 3 \<and> v = 1 then sd else - 1)\<rparr>"






section \<open>Theorems\<close>

subsection \<open>C1: the MST objective rule-out\<close>





subsection \<open>Helper lemmas on arrays and root paths\<close>

lemma rd_Some_iff: "rd xs i = Some x \<longleftrightarrow> 0 \<le> i \<and> i < int (length xs) \<and> x = xs ! nat i"
  by (auto simp: rd_def)

lemma rd_in_range: "0 \<le> i \<Longrightarrow> i < int (length xs) \<Longrightarrow> rd xs i = Some (xs ! nat i)"
  by (simp add: rd_def)

lemma wr_in_range: "0 \<le> i \<Longrightarrow> i < int (length xs) \<Longrightarrow> wr xs i v = Some (xs[nat i := v])"
  by (simp add: wr_def)


lemma isRootPath_in_range:
  "isRootPath pn c us \<Longrightarrow> u \<in> set us \<Longrightarrow> 0 \<le> u \<and> u < int (length pn)"
  by (induction us arbitrary: c) (auto simp: rd_Some_iff split: option.splits)

text \<open>Writing the values \<open>xs\<close> at the vertices \<open>us\<close>, one after the other.\<close>

lemma unmarkRootPathLoop_path:
  "isRootPath pn c us \<Longrightarrow> length bdn = length pn \<Longrightarrow>
   unmarkRootPathLoop pn bdn c = Some (fold (\<lambda>u a. a[nat u := - 1]) us bdn)"
proof (induction us arbitrary: c bdn)
  case Nil
  then show ?case by (simp add: unmarkRootPathLoop.simps)
next
  case (Cons u us)
  from Cons.prems obtain n where u: "c = u" "u \<noteq> - 1" "rd pn u = Some n" "isRootPath pn n us"
    by (auto split: option.splits)
  from u(3) have r: "0 \<le> u" "u < int (length pn)" by (auto simp: rd_Some_iff)
  have "unmarkRootPathLoop pn bdn c = unmarkRootPathLoop pn (bdn[nat u := - 1]) n"
    using u r Cons.prems(2) by (subst unmarkRootPathLoop.simps) (simp add: wr_in_range)
  also have "\<dots> = Some (fold (\<lambda>u a. a[nat u := - 1]) us (bdn[nat u := - 1]))"
    using Cons.IH [OF u(4)] Cons.prems(2) by simp
  finally show ?case by simp
qed

lemma fold_unmark_length: "length (fold (\<lambda>u a. a[nat u := (v::real)]) us bdn) = length bdn"
  by (induction us arbitrary: bdn) auto

lemma fold_unmark_nth:
  "k < length bdn \<Longrightarrow>
   (fold (\<lambda>u a. a[nat u := (v::real)]) us bdn) ! k =
     (if k \<in> nat ` set us then v else bdn ! k)"
proof (induction us arbitrary: bdn)
  case Nil
  then show ?case by simp
next
  case (Cons u us)
  then show ?case
    by (auto simp: nth_list_update)
qed


lemma isRootPath_unique: "isRootPath pn c us \<Longrightarrow> isRootPath pn c vs \<Longrightarrow> us = vs"
proof (induction us arbitrary: c vs)
  case Nil
  then show ?case by (cases vs) auto
next
  case (Cons u us)
  then show ?case by (cases vs) (auto split: option.splits)
qed

lemma isRootPath_suffix: "isRootPath pn c (as @ u # bs) \<Longrightarrow> isRootPath pn u (u # bs)"
proof (induction as arbitrary: c)
  case Nil
  then show ?case by simp
next
  case (Cons a as)
  from Cons.prems obtain n where "isRootPath pn n (as @ u # bs)"
    by (auto split: option.splits)
  then show ?case by (rule Cons.IH)
qed

lemma isRootPath_distinct: "isRootPath pn c us \<Longrightarrow> distinct us"
proof (induction us arbitrary: c)
  case Nil
  then show ?case by simp
next
  case (Cons u us)
  from Cons.prems obtain n where n: "c = u" "rd pn u = Some n" "isRootPath pn n us"
    by (auto split: option.splits)
  have "u \<notin> set us"
  proof
    assume "u \<in> set us"
    then obtain as bs where us: "us = as @ u # bs" by (auto dest: split_list)
    with n(3) have "isRootPath pn u (u # bs)" by (auto dest: isRootPath_suffix)
    moreover from Cons.prems n(1) have "isRootPath pn u (u # us)" by simp
    ultimately have "u # bs = u # us" by (rule isRootPath_unique)
    with us show False by simp
  qed
  with Cons.IH [OF n(3)] show ?case by simp
qed

lemma bottleneckLocal_eq:
  assumes "treeArraysOk graph extdata" and "0 \<le> c" and "c < int (length (tree_parentNode extdata))"
  shows "bottleneckLocal E graph extdata acc c =
     Some (if tree_deg extdata ! nat c = 2
           then acc + tree_parentEdgeCost extdata ! nat c - pcPrizeSub E graph c
           else tree_parentEdgeCost extdata ! nat c)"
  using assms
  by (auto simp: bottleneckLocal_def treeArraysOk_def rd_def pcPrizeSub_def graph_pc_isPc_def
      split: option.splits)

lemma markRootPathLoop_path:
  assumes ok: "treeArraysOk graph extdata"
  shows "isRootPath (tree_parentNode extdata) c us \<Longrightarrow> 0 \<le> child \<Longrightarrow>
    child < int (length (tree_parentNode extdata)) \<Longrightarrow>
    length bdn = length (tree_parentNode extdata) \<Longrightarrow>
    markRootPathLoop E graph extdata bdn mx acc child c =
      Some (fold (\<lambda>(u, x) a. a[nat u := x])
        (zip us (spec_bottlenecks (\<lambda>v. tree_deg extdata ! nat v)
                   (\<lambda>v. tree_parentEdgeCost extdata ! nat v) (pcPrizeSub E graph) acc mx
                   (take (length us) (child # us)))) bdn)"
proof (induction us arbitrary: c child bdn mx acc)
  case Nil
  then show ?case by (simp add: markRootPathLoop.simps)
next
  case (Cons u us)
  let ?pn = "tree_parentNode extdata"
  from Cons.prems(1) obtain n where u: "c = u" "u \<noteq> - 1" "rd ?pn u = Some n" "isRootPath ?pn n us"
    by (auto split: option.splits)
  from u(3) have r: "0 \<le> u" "u < int (length ?pn)" by (auto simp: rd_Some_iff)
  define bl where "bl = (if tree_deg extdata ! nat child = 2
           then acc + tree_parentEdgeCost extdata ! nat child - pcPrizeSub E graph child
           else tree_parentEdgeCost extdata ! nat child)"
  have loc: "bottleneckLocal E graph extdata acc child = Some bl"
    unfolding bl_def using ok Cons.prems(2,3) by (rule bottleneckLocal_eq)
  have mx: "(if mx < bl then bl else mx) = max mx bl" by (simp add: max_def)
  have step: "markRootPathLoop E graph extdata bdn mx acc child c =
      markRootPathLoop E graph extdata (bdn[nat u := max mx bl]) (max mx bl) bl u n"
    using u r Cons.prems(4) loc
    by (subst markRootPathLoop.simps) (simp add: wr_in_range mx Let_def)
  have ih: "markRootPathLoop E graph extdata (bdn[nat u := max mx bl]) (max mx bl) bl u n =
      Some (fold (\<lambda>(u, x) a. a[nat u := x])
        (zip us (spec_bottlenecks (\<lambda>v. tree_deg extdata ! nat v)
                   (\<lambda>v. tree_parentEdgeCost extdata ! nat v) (pcPrizeSub E graph) bl (max mx bl)
                   (take (length us) (u # us)))) (bdn[nat u := max mx bl]))"
    using Cons.IH [OF u(4) r] Cons.prems(4) by simp
  show ?case
    unfolding step ih by (simp add: Let_def bl_def)
qed

lemma spec_bottlenecks_length [simp]:
  "length (spec_bottlenecks deg ecost sub acc mx cs) = length cs"
  by (induction cs arbitrary: acc mx) (auto simp: Let_def)

lemma fold_upd_length:
  "length (fold (\<lambda>(u, x) a. a[nat u := x]) ps (bdn::real list)) = length bdn"
  by (induction ps arbitrary: bdn) auto

lemma fold_upd_nth_other:
  "k \<notin> nat ` fst ` set ps \<Longrightarrow>
   (fold (\<lambda>(u, x) a. a[nat u := x]) ps (bdn::real list)) ! k = bdn ! k"
  by (induction ps arbitrary: bdn) auto

lemma fold_upd_nth_hit:
  "distinct (map fst ps) \<Longrightarrow> (u, x) \<in> set ps \<Longrightarrow> \<forall>p \<in> set ps. 0 \<le> fst p \<Longrightarrow>
   nat u < length bdn \<Longrightarrow>
   (fold (\<lambda>(u, x) a. a[nat u := x]) ps (bdn::real list)) ! nat u = x"
proof (induction ps arbitrary: bdn)
  case Nil
  then show ?case by simp
next
  case (Cons p ps)
  show ?case
  proof (cases "p = (u, x)")
    case True
    have "nat u \<notin> nat ` fst ` set ps"
    proof
      assume "nat u \<in> nat ` fst ` set ps"
      then obtain q where q: "q \<in> set ps" "nat (fst q) = nat u" by auto
      with Cons.prems(3) True have "fst q = u" by (auto simp: nat_eq_iff)
      with q(1) Cons.prems(1) True show False by force
    qed
    with True Cons.prems(4) show ?thesis by (simp add: fold_upd_nth_other)
  next
    case False
    with Cons.prems have "(u, x) \<in> set ps" by simp
    with Cons.IH [of "bdn[nat (fst p) := snd p]"] Cons.prems show ?thesis
      by (cases p) auto
  qed
qed

lemma fold_unmark_id:
  assumes "\<forall>u \<in> set us. bdn ! nat u = (- 1 :: real)"
  shows "fold (\<lambda>u a. a[nat u := - 1]) us bdn = bdn"
proof (rule nth_equalityI)
  show "length (fold (\<lambda>u a. a[nat u := - 1]) us bdn) = length bdn"
    by (rule fold_unmark_length)
next
  fix k
  assume "k < length (fold (\<lambda>u a. a[nat u := - 1]) us bdn)"
  then have k: "k < length bdn" by (simp add: fold_unmark_length)
  show "fold (\<lambda>u a. a[nat u := - 1]) us bdn ! k = bdn ! k"
    using assms by (auto simp: fold_unmark_nth [OF k])
qed

lemma fold_unmark_after_mark:
  assumes "\<forall>u \<in> set us. bdn ! nat u = (- 1 :: real)" and "fst ` set ps \<subseteq> set us"
  shows "fold (\<lambda>u a. a[nat u := - 1]) us (fold (\<lambda>(u, x) a. a[nat u := x]) ps bdn) = bdn"
proof (rule nth_equalityI)
  show "length (fold (\<lambda>u a. a[nat u := - 1]) us (fold (\<lambda>(u, x) a. a[nat u := x]) ps bdn))
          = length bdn"
    by (simp add: fold_unmark_length fold_upd_length)
next
  fix k
  assume "k < length (fold (\<lambda>u a. a[nat u := - 1]) us (fold (\<lambda>(u, x) a. a[nat u := x]) ps bdn))"
  then have k: "k < length (fold (\<lambda>(u, x) a. a[nat u := x]) ps bdn)"
    by (simp add: fold_unmark_length)
  show "fold (\<lambda>u a. a[nat u := - 1]) us (fold (\<lambda>(u, x) a. a[nat u := x]) ps bdn) ! k = bdn ! k"
  proof (cases "k \<in> nat ` set us")
    case True
    with assms(1) show ?thesis by (auto simp: fold_unmark_nth [OF k])
  next
    case False
    with assms(2) have "k \<notin> nat ` fst ` set ps" by auto
    with False show ?thesis by (simp add: fold_unmark_nth [OF k] fold_upd_nth_other)
  qed
qed

subsection \<open>C7: marking and unmarking the root path\<close>

text \<open>
  C7. Let \<open>v\<close> be a vertex of a tree state (the tree arrays have one entry per vertex and the
  parent pointers lead from \<open>v\<close> over its proper ancestors \<open>us\<close> to the root) whose
  bottleneck entries at \<open>v\<close> and at its ancestors are unmarked (\<open>-1\<close>). Then
  \<^verbatim>\<open>bottleneckMarkRootPath\<close> returns, \<^verbatim>\<open>bottleneckUnmarkRootPath\<close> returns on the marked
  state, and the state after the pair is the state before it: every ancestor entry is \<open>-1\<close>
  again and no other entry has changed.
\<close>

theorem mark_unmark_root_path_roundtrip:
  assumes ok: "treeArraysOk graph extdata"
    and par: "rd (tree_parentNode extdata) v = Some c"
    and path: "isRootPath (tree_parentNode extdata) c us"
    and unmarked: "\<forall>u \<in> set (v # us). tree_bottleneckDistNode extdata ! nat u = - 1"
  shows "\<exists>marked. bottleneckMarkRootPath E graph v extdata = Some marked
           \<and> bottleneckUnmarkRootPath graph v marked = Some extdata"
proof -
  let ?pn = "tree_parentNode extdata"
  let ?bdn = "tree_bottleneckDistNode extdata"
  from par have v: "0 \<le> v" "v < int (length ?pn)" by (auto simp: rd_Some_iff)
  from ok have len: "length ?bdn = length ?pn" by (simp add: treeArraysOk_def)
  from unmarked have um: "\<forall>u \<in> set us. ?bdn ! nat u = - 1" and uv: "?bdn ! nat v = - 1"
    by simp_all
  show ?thesis
  proof (cases "v = tree_root extdata")
    case True
    have m: "bottleneckMarkRootPath E graph v extdata
               = Some (extdata\<lparr>tree_bottleneckDistNode := ?bdn[nat v := 0]\<rparr>)"
      using True v len by (simp add: bottleneckMarkRootPath_def wr_in_range)
    have restore: "?bdn[nat v := - 1] = ?bdn"
      using uv by (metis list_update_id)
    have "bottleneckUnmarkRootPath graph v (extdata\<lparr>tree_bottleneckDistNode := ?bdn[nat v := 0]\<rparr>)
            = Some extdata"
      using True v len par unmarkRootPathLoop_path [OF path, of ?bdn] fold_unmark_id [OF um]
        restore
      by (simp add: bottleneckUnmarkRootPath_def wr_in_range)
    with m show ?thesis by simp
  next
    case False
    define ps where "ps = zip us (spec_bottlenecks (\<lambda>v. tree_deg extdata ! nat v)
                   (\<lambda>v. tree_parentEdgeCost extdata ! nat v) (pcPrizeSub E graph) 0 0
                   (take (length us) (v # us)))"
    define M where "M = fold (\<lambda>(u, x) a. a[nat u := x]) ps ?bdn"
    have loop: "markRootPathLoop E graph extdata ?bdn 0 0 v c = Some M"
      unfolding M_def ps_def using markRootPathLoop_path [OF ok path v len] .
    have m: "bottleneckMarkRootPath E graph v extdata
               = Some (extdata\<lparr>tree_bottleneckDistNode := M\<rparr>)"
      using False par loop by (simp add: bottleneckMarkRootPath_def)
    have lenM: "length M = length ?pn" by (simp add: M_def fold_upd_length len)
    have sub: "fst ` set ps \<subseteq> set us" by (auto simp: ps_def dest: set_zip_leftD)
    have "unmarkRootPathLoop ?pn M c = Some (fold (\<lambda>u a. a[nat u := - 1]) us M)"
      using path lenM by (rule unmarkRootPathLoop_path)
    also have "fold (\<lambda>u a. a[nat u := - 1]) us M = ?bdn"
      unfolding M_def using um sub by (rule fold_unmark_after_mark)
    finally have "bottleneckUnmarkRootPath graph v (extdata\<lparr>tree_bottleneckDistNode := M\<rparr>)
            = Some extdata"
      using False par by (simp add: bottleneckUnmarkRootPath_def)
    with m show ?thesis by simp
  qed
qed

theorem mark_unmark_root_path_roundtrip_witness:
  "bottleneckMarkRootPath env0 graph_pcpath 2 ext_pcpath
     = Some (ext_pcpath\<lparr>tree_bottleneckDistNode := [8 / 5, 1, - 1]\<rparr>)
   \<and> bottleneckUnmarkRootPath graph_pcpath 2
        (ext_pcpath\<lparr>tree_bottleneckDistNode := [8 / 5, 1, - 1]\<rparr>) = Some ext_pcpath"
proof -
  have ok: "treeArraysOk graph_pcpath ext_pcpath"
    by (simp add: treeArraysOk_def graph_pcpath_def ext_pcpath_def)
  have par: "rd (tree_parentNode ext_pcpath) 2 = Some 1"
    by (simp add: rd_def ext_pcpath_def)
  have path: "isRootPath (tree_parentNode ext_pcpath) 1 [1, 0]"
    by (simp add: rd_def ext_pcpath_def)
  have um: "\<forall>u \<in> set (2 # [1, 0]). tree_bottleneckDistNode ext_pcpath ! nat u = - 1"
    by (simp add: ext_pcpath_def)
  have m: "bottleneckMarkRootPath env0 graph_pcpath 2 ext_pcpath
     = Some (ext_pcpath\<lparr>tree_bottleneckDistNode := [8 / 5, 1, - 1]\<rparr>)"
    by (simp add: bottleneckMarkRootPath_def markRootPathLoop.simps bottleneckLocal_def
        graph_pc_isPc_def rd_def wr_def graph_pcpath_def ext_pcpath_def env0_def Let_def)
  from mark_unmark_root_path_roundtrip [OF ok par path um, of env0] m
  show ?thesis by auto
qed

subsection \<open>C3: the values that marking the root path stores\<close>

lemma markRootPath_values:
  assumes ok: "treeArraysOk graph extdata"
    and nroot: "v \<noteq> tree_root extdata"
    and par: "rd (tree_parentNode extdata) v = Some c"
    and path: "isRootPath (tree_parentNode extdata) c us"
  shows "\<exists>marked. bottleneckMarkRootPath E graph v extdata = Some marked
     \<and> (\<forall>i < length us. rd (tree_bottleneckDistNode marked) (us ! i) =
           Some (spec_bottlenecks (\<lambda>v. tree_deg extdata ! nat v)
                   (\<lambda>v. tree_parentEdgeCost extdata ! nat v) (pcPrizeSub E graph) 0 0
                   (take (length us) (v # us)) ! i))
     \<and> (\<forall>k < length (tree_bottleneckDistNode extdata). k \<notin> nat ` set us \<longrightarrow>
           tree_bottleneckDistNode marked ! k = tree_bottleneckDistNode extdata ! k)"
proof -
  let ?pn = "tree_parentNode extdata"
  let ?bdn = "tree_bottleneckDistNode extdata"
  define vals where "vals = spec_bottlenecks (\<lambda>v. tree_deg extdata ! nat v)
                   (\<lambda>v. tree_parentEdgeCost extdata ! nat v) (pcPrizeSub E graph) 0 0
                   (take (length us) (v # us))"
  define M where "M = fold (\<lambda>(u, x) a. a[nat u := x]) (zip us vals) ?bdn"
  from par have v: "0 \<le> v" "v < int (length ?pn)" by (auto simp: rd_Some_iff)
  from ok have len: "length ?bdn = length ?pn" by (simp add: treeArraysOk_def)
  have lv: "length vals = length us" by (simp add: vals_def)
  have loop: "markRootPathLoop E graph extdata ?bdn 0 0 v c = Some M"
    unfolding M_def vals_def using markRootPathLoop_path [OF ok path v len] .
  have m: "bottleneckMarkRootPath E graph v extdata
             = Some (extdata\<lparr>tree_bottleneckDistNode := M\<rparr>)"
    using nroot par loop by (simp add: bottleneckMarkRootPath_def)
  have lenM: "length M = length ?pn" by (simp add: M_def fold_upd_length len)
  have hit: "rd M (us ! i) = Some (vals ! i)" if i: "i < length us" for i
  proof -
    from i have mem: "us ! i \<in> set us" by simp
    with path have r: "0 \<le> us ! i" "us ! i < int (length ?pn)"
      by (auto dest: isRootPath_in_range)
    have d: "distinct (map fst (zip us vals))"
      using isRootPath_distinct [OF path] lv by simp
    have p: "(us ! i, vals ! i) \<in> set (zip us vals)"
      using i lv by (auto simp: set_zip)
    have nn: "\<forall>p \<in> set (zip us vals). 0 \<le> fst p"
      using path by (auto dest: set_zip_leftD isRootPath_in_range)
    have "M ! nat (us ! i) = vals ! i"
      unfolding M_def using d p nn r len by (intro fold_upd_nth_hit) auto
    with r lenM show ?thesis by (simp add: rd_def)
  qed
  have other: "M ! k = ?bdn ! k" if "k \<notin> nat ` set us" for k
  proof -
    from that have "k \<notin> nat ` fst ` set (zip us vals)"
      by (auto dest: set_zip_leftD)
    then show ?thesis unfolding M_def by (rule fold_upd_nth_other)
  qed
  show ?thesis
    using m hit other by (simp add: vals_def)
qed

text \<open>
  C3. On a tree state, \<^verbatim>\<open>bottleneckMarkRootPath\<close> from a vertex \<open>v\<close> other than the root
  returns and stores at every proper ancestor of \<open>v\<close> the value of the specification: walking
  up from \<open>v\<close>, the parent-edge cost of a vertex of tree degree 2 is added to the accumulator
  (minus the prize of a terminal in the prize-collecting variant), a vertex of any other
  degree resets the accumulator to its parent-edge cost, and the stored value is the running
  maximum; no other entry changes. On the path \<open>0 - t - 2\<close> with both edges of cost 1 and
  \<open>t\<close> a non-leaf terminal of prize 0.4, the bottleneck from 2 past \<open>t\<close> is
  \<open>max 1 (1 + 1 - 0.4) = 1.6\<close>, both as stored at the root by marking from 2 and as returned by
  \<^verbatim>\<open>bottleneckGetDist\<close> for 2 against the marked root.
\<close>

theorem bottleneckMarkRootPath_spec:
  "(\<forall>E graph extdata v c us.
      treeArraysOk graph extdata \<and> v \<noteq> tree_root extdata
      \<and> rd (tree_parentNode extdata) v = Some c \<and> isRootPath (tree_parentNode extdata) c us
      \<longrightarrow> (\<exists>marked. bottleneckMarkRootPath E graph v extdata = Some marked
            \<and> (\<forall>i < length us. rd (tree_bottleneckDistNode marked) (us ! i) =
                 Some (spec_bottlenecks (\<lambda>v. tree_deg extdata ! nat v)
                        (\<lambda>v. tree_parentEdgeCost extdata ! nat v) (pcPrizeSub E graph) 0 0
                        (take (length us) (v # us)) ! i))
            \<and> (\<forall>k < length (tree_bottleneckDistNode extdata). k \<notin> nat ` set us \<longrightarrow>
                 tree_bottleneckDistNode marked ! k = tree_bottleneckDistNode extdata ! k)))
   \<and> bottleneckMarkRootPath env0 graph_pcpath 2 ext_pcpath
       = Some (ext_pcpath\<lparr>tree_bottleneckDistNode := [max 1 (1 + 1 - 4 / 10), 1, - 1]\<rparr>)
   \<and> max 1 (1 + 1 - 4 / 10) = (16 / 10 :: real)
   \<and> bottleneckGetDist env0 graph_pcpath (ext_pcpath\<lparr>tree_bottleneckDistNode := [0, - 1, - 1]\<rparr>) 2
       = Some (16 / 10)"
proof (intro conjI allI impI)
  fix E graph extdata v c us
  assume "treeArraysOk graph extdata \<and> v \<noteq> tree_root extdata
      \<and> rd (tree_parentNode extdata) v = Some c \<and> isRootPath (tree_parentNode extdata) c us"
  then show "\<exists>marked. bottleneckMarkRootPath E graph v extdata = Some marked
            \<and> (\<forall>i < length us. rd (tree_bottleneckDistNode marked) (us ! i) =
                 Some (spec_bottlenecks (\<lambda>v. tree_deg extdata ! nat v)
                        (\<lambda>v. tree_parentEdgeCost extdata ! nat v) (pcPrizeSub E graph) 0 0
                        (take (length us) (v # us)) ! i))
            \<and> (\<forall>k < length (tree_bottleneckDistNode extdata). k \<notin> nat ` set us \<longrightarrow>
                 tree_bottleneckDistNode marked ! k = tree_bottleneckDistNode extdata ! k)"
    using markRootPath_values by blast
next
  show "bottleneckMarkRootPath env0 graph_pcpath 2 ext_pcpath
       = Some (ext_pcpath\<lparr>tree_bottleneckDistNode := [max 1 (1 + 1 - 4 / 10), 1, - 1]\<rparr>)"
    by (simp add: bottleneckMarkRootPath_def markRootPathLoop.simps bottleneckLocal_def
        graph_pc_isPc_def rd_def wr_def graph_pcpath_def ext_pcpath_def env0_def Let_def)
next
  show "max 1 (1 + 1 - 4 / 10) = (16 / 10 :: real)" by simp
next
  show "bottleneckGetDist env0 graph_pcpath
          (ext_pcpath\<lparr>tree_bottleneckDistNode := [0, - 1, - 1]\<rparr>) 2 = Some (16 / 10)"
    by (simp add: bottleneckGetDist_def getDistLoop.simps bottleneckLocal_def
        graph_pc_isPc_def rd_def graph_pcpath_def ext_pcpath_def env0_def Let_def)
qed

theorem bottleneckMarkRootPath_spec_witness:
  "\<exists>marked. bottleneckMarkRootPath env0 graph_pcpath 2 ext_pcpath = Some marked
     \<and> rd (tree_bottleneckDistNode marked) 1 = Some 1
     \<and> rd (tree_bottleneckDistNode marked) 0 = Some (16 / 10)
     \<and> tree_bottleneckDistNode marked ! 2 = - 1"
proof -
  have ok: "treeArraysOk graph_pcpath ext_pcpath"
    by (simp add: treeArraysOk_def graph_pcpath_def ext_pcpath_def)
  have nroot: "2 \<noteq> tree_root ext_pcpath"
    by (simp add: ext_pcpath_def)
  have par: "rd (tree_parentNode ext_pcpath) 2 = Some 1"
    by (simp add: rd_def ext_pcpath_def)
  have path: "isRootPath (tree_parentNode ext_pcpath) 1 [1, 0]"
    by (simp add: rd_def ext_pcpath_def)
  have vals: "spec_bottlenecks (\<lambda>v. tree_deg ext_pcpath ! nat v)
                (\<lambda>v. tree_parentEdgeCost ext_pcpath ! nat v) (pcPrizeSub env0 graph_pcpath) 0 0
                (take (length [1, 0 :: int]) (2 # [1, 0])) = [1, 16 / 10]"
    by (simp add: pcPrizeSub_def graph_pcpath_def ext_pcpath_def env0_def Let_def)
  from bottleneckMarkRootPath_spec ok nroot par path
  obtain marked where m: "bottleneckMarkRootPath env0 graph_pcpath 2 ext_pcpath = Some marked"
    and hit: "\<forall>i < length [1, 0 :: int]. rd (tree_bottleneckDistNode marked) ([1, 0] ! i) =
                 Some (spec_bottlenecks (\<lambda>v. tree_deg ext_pcpath ! nat v)
                        (\<lambda>v. tree_parentEdgeCost ext_pcpath ! nat v)
                        (pcPrizeSub env0 graph_pcpath) 0 0
                        (take (length [1, 0 :: int]) (2 # [1, 0])) ! i)"
    and other: "\<forall>k < length (tree_bottleneckDistNode ext_pcpath). k \<notin> nat ` set [1, 0 :: int] \<longrightarrow>
                 tree_bottleneckDistNode marked ! k = tree_bottleneckDistNode ext_pcpath ! k"
    by blast
  from hit [unfolded vals, rule_format, of 0]
  have h0: "rd (tree_bottleneckDistNode marked) 1 = Some 1"
    by simp
  from hit [unfolded vals, rule_format, of 1]
  have h1: "rd (tree_bottleneckDistNode marked) 0 = Some (16 / 10)"
    by simp
  from other have "tree_bottleneckDistNode marked ! 2 = tree_bottleneckDistNode ext_pcpath ! 2"
    by (simp add: ext_pcpath_def)
  then have h2: "tree_bottleneckDistNode marked ! 2 = - 1"
    by (simp add: ext_pcpath_def)
  from m h0 h1 h2 show ?thesis by blast
qed

subsection \<open>C10: the reset stack of equality-forbidden edges\<close>

lemma sdeq_frame_iff:
  "(y = x\<lparr>sdeq_edgesIsForbidden := sdeq_edgesIsForbidden y,
          sdeq_hasForbiddenEdges := sdeq_hasForbiddenEdges y,
          sdeq_resetStack := sdeq_resetStack y\<rparr>)
   \<longleftrightarrow> (\<exists>p q r. y = x\<lparr>sdeq_edgesIsForbidden := p, sdeq_hasForbiddenEdges := q,
                        sdeq_resetStack := r\<rparr>)"
proof
  assume "y = x\<lparr>sdeq_edgesIsForbidden := sdeq_edgesIsForbidden y,
          sdeq_hasForbiddenEdges := sdeq_hasForbiddenEdges y,
          sdeq_resetStack := sdeq_resetStack y\<rparr>"
  then show "\<exists>p q r. y = x\<lparr>sdeq_edgesIsForbidden := p, sdeq_hasForbiddenEdges := q,
                        sdeq_resetStack := r\<rparr>"
    by blast
next
  assume "\<exists>p q r. y = x\<lparr>sdeq_edgesIsForbidden := p, sdeq_hasForbiddenEdges := q,
                        sdeq_resetStack := r\<rparr>"
  then obtain p q r where "y = x\<lparr>sdeq_edgesIsForbidden := p, sdeq_hasForbiddenEdges := q,
                        sdeq_resetStack := r\<rparr>"
    by blast
  then show "y = x\<lparr>sdeq_edgesIsForbidden := sdeq_edgesIsForbidden y,
          sdeq_hasForbiddenEdges := sdeq_hasForbiddenEdges y,
          sdeq_resetStack := sdeq_resetStack y\<rparr>"
    by simp
qed

lemma sdeqMarks_refl: "sdeqMarks x [] x"
  by (simp add: sdeqMarks_def list_all_iff)

lemma sdeqMarks_trans:
  assumes xy: "sdeqMarks x as y" and yz: "sdeqMarks y bs z"
  shows "sdeqMarks x (as @ bs) z"
proof -
  let ?f = sdeq_edgesIsForbidden
  from xy yz have len: "length (?f y) = length (?f x)" "length (?f z) = length (?f y)"
    by (simp_all add: sdeqMarks_def)
  have asx: "\<forall>i \<in> set as. rd (?f x) i = Some False" and asy: "\<forall>i \<in> set as. rd (?f y) i = Some True"
    and bsy: "\<forall>i \<in> set bs. rd (?f y) i = Some False" and bsz: "\<forall>i \<in> set bs. rd (?f z) i = Some True"
    and oxy: "\<forall>k < length (?f x). ?f y ! k = ?f x ! k \<or> int k \<in> set as"
    and oyz: "\<forall>k < length (?f x). ?f z ! k = ?f y ! k \<or> int k \<in> set bs"
    using xy yz len by (simp_all add: sdeqMarks_def list_all_iff)
  have disj: "set as \<inter> set bs = {}"
    using asy bsy by fastforce
  have frame: "z = x\<lparr>sdeq_edgesIsForbidden := sdeq_edgesIsForbidden z,
          sdeq_hasForbiddenEdges := sdeq_hasForbiddenEdges z,
          sdeq_resetStack := sdeq_resetStack z\<rparr>"
  proof -
    from xy obtain p q r where y: "y = x\<lparr>sdeq_edgesIsForbidden := p, sdeq_hasForbiddenEdges := q,
                        sdeq_resetStack := r\<rparr>"
      unfolding sdeqMarks_def sdeq_frame_iff by blast
    from yz obtain p' q' r' where "z = y\<lparr>sdeq_edgesIsForbidden := p', sdeq_hasForbiddenEdges := q',
                        sdeq_resetStack := r'\<rparr>"
      unfolding sdeqMarks_def sdeq_frame_iff by blast
    with y have "z = x\<lparr>sdeq_edgesIsForbidden := p', sdeq_hasForbiddenEdges := q',
                        sdeq_resetStack := r'\<rparr>"
      by simp
    then show ?thesis by simp
  qed
  have x_as_bs: "\<forall>i \<in> set bs. rd (?f x) i = Some False"
  proof
    fix i assume i: "i \<in> set bs"
    with bsy have r: "0 \<le> i" "i < int (length (?f y))" "?f y ! nat i = False"
      by (auto simp: rd_Some_iff)
    then have "nat i < length (?f x)" using len by simp
    with oxy have "?f y ! nat i = ?f x ! nat i \<or> int (nat i) \<in> set as" by blast
    moreover from i disj r(1) have "int (nat i) \<notin> set as" by auto
    ultimately show "rd (?f x) i = Some False" using r len by (simp add: rd_def)
  qed
  have z_as: "\<forall>i \<in> set as. rd (?f z) i = Some True"
  proof
    fix i assume i: "i \<in> set as"
    with asy have r: "0 \<le> i" "i < int (length (?f y))" "?f y ! nat i = True"
      by (auto simp: rd_Some_iff)
    then have "nat i < length (?f x)" using len by simp
    with oyz have "?f z ! nat i = ?f y ! nat i \<or> int (nat i) \<in> set bs" by blast
    moreover from i disj r(1) have "int (nat i) \<notin> set bs" by auto
    ultimately show "rd (?f z) i = Some True" using r len by (simp add: rd_def)
  qed
  have other: "\<forall>k < length (?f x). ?f z ! k = ?f x ! k \<or> int k \<in> set (as @ bs)"
    using oxy oyz by fastforce
  from xy yz have stack: "sdeq_resetStack z = sdeq_resetStack x @ as @ bs"
    and d: "distinct as" "distinct bs"
    and has: "sdeq_hasForbiddenEdges z = (sdeq_hasForbiddenEdges x \<or> as @ bs \<noteq> [])"
    by (auto simp: sdeqMarks_def)
  show ?thesis
    unfolding sdeqMarks_def
    using frame stack d disj len asx x_as_bs z_as bsz other has
    by (simp add: list_all_iff) blast
qed

lemma sdeqMarks_inv:
  assumes m: "sdeqMarks x ids y" and inv: "sdeqInv x"
  shows "sdeqInv y"
proof -
  let ?f = sdeq_edgesIsForbidden
  from m have len: "length (?f y) = length (?f x)"
    and stack: "sdeq_resetStack y = sdeq_resetStack x @ ids"
    and d: "distinct ids"
    and idx: "\<forall>i \<in> set ids. rd (?f x) i = Some False"
    and idy: "\<forall>i \<in> set ids. rd (?f y) i = Some True"
    and other: "\<forall>k < length (?f x). ?f y ! k = ?f x ! k \<or> int k \<in> set ids"
    and has: "sdeq_hasForbiddenEdges y = (sdeq_hasForbiddenEdges x \<or> ids \<noteq> [])"
    by (simp_all add: sdeqMarks_def list_all_iff)
  from inv have dx: "distinct (sdeq_resetStack x)"
    and fx: "\<forall>i \<in> set (sdeq_resetStack x). rd (?f x) i = Some True"
    and hx: "sdeq_resetStack x = [] \<or> sdeq_hasForbiddenEdges x"
    by (simp_all add: sdeqInv_def list_all_iff)
  have disj: "set (sdeq_resetStack x) \<inter> set ids = {}"
    using fx idx by fastforce
  have keep: "\<forall>i \<in> set (sdeq_resetStack x). rd (?f y) i = Some True"
  proof
    fix i assume i: "i \<in> set (sdeq_resetStack x)"
    with fx have r: "0 \<le> i" "i < int (length (?f x))" "?f x ! nat i = True"
      by (auto simp: rd_Some_iff)
    then have "nat i < length (?f x)" by simp
    with other have "?f y ! nat i = ?f x ! nat i \<or> int (nat i) \<in> set ids" by blast
    moreover from i disj r(1) have "int (nat i) \<notin> set ids" by auto
    ultimately show "rd (?f y) i = Some True" using r len by (simp add: rd_def)
  qed
  show ?thesis
    unfolding sdeqInv_def using stack d dx disj keep idy has hx
    by (auto simp: list_all_iff)
qed

lemma bottleneckMarkEqualityEdge_marks:
  assumes "bottleneckMarkEqualityEdge edge x = Some y"
  shows "\<exists>ids. (ids = [] \<or> ids = [edge sdiv 2]) \<and> sdeqMarks x ids y"
proof -
  from assms obtain f where f: "rd (sdeq_edgesIsForbidden x) (edge sdiv 2) = Some f"
    by (auto simp: bottleneckMarkEqualityEdge_def split: Option.bind_splits)
  show ?thesis
  proof (cases f)
    case True
    with assms f have "y = x" by (simp add: bottleneckMarkEqualityEdge_def)
    then show ?thesis using sdeqMarks_refl by blast
  next
    case False
    from f have r: "0 \<le> edge sdiv 2" "edge sdiv 2 < int (length (sdeq_edgesIsForbidden x))"
      by (auto simp: rd_Some_iff)
    with assms f False
    have y: "y = x\<lparr>sdeq_edgesIsForbidden := (sdeq_edgesIsForbidden x)[nat (edge sdiv 2) := True],
                   sdeq_hasForbiddenEdges := True,
                   sdeq_resetStack := sdeq_resetStack x @ [edge sdiv 2]\<rparr>"
      by (simp add: bottleneckMarkEqualityEdge_def wr_in_range)
    have "sdeqMarks x [edge sdiv 2] y"
      unfolding sdeqMarks_def using f False r
      by (auto simp: y rd_def list_all_iff nth_list_update)
    then show ?thesis by blast
  qed
qed

lemma markEqualityPathEdges_marks:
  assumes "markEqualityPathEdges E graph c e x = Some y"
  shows "\<exists>ids. sdeqMarks x ids y"
proof -
  have step: "\<exists>ids. sdeqMarks extdata ids y"
    if IH: "\<And>E graph c e x y. f E graph c e x = Some y \<Longrightarrow> \<exists>ids. sdeqMarks x ids y"
      and body: "(if e \<noteq> EAT_LAST E then do {
                    h \<leftarrow> rd (head graph) e;
                    if h = currentNode then bottleneckMarkEqualityEdge e extdata
                    else do { e' \<leftarrow> rd (oeat graph) e; f E graph currentNode e' extdata }
                  } else Some extdata) = Some y"
    for f E graph currentNode e extdata y
  proof (cases "e \<noteq> EAT_LAST E")
    case False
    with body have "y = extdata" by simp
    then show ?thesis using sdeqMarks_refl by blast
  next
    case True
    with body obtain h where h: "rd (head graph) e = Some h"
      and rest: "(if h = currentNode then bottleneckMarkEqualityEdge e extdata
                  else rd (oeat graph) e \<bind> (\<lambda>e'. f E graph currentNode e' extdata)) = Some y"
      by (auto split: Option.bind_splits)
    show ?thesis
    proof (cases "h = currentNode")
      case True
      with rest have "bottleneckMarkEqualityEdge e extdata = Some y" by simp
      then show ?thesis using bottleneckMarkEqualityEdge_marks by blast
    next
      case False
      with rest obtain e' where "f E graph currentNode e' extdata = Some y"
        by (auto split: Option.bind_splits)
      then show ?thesis by (rule IH)
    qed
  qed
  show ?thesis
    by (rule markEqualityPathEdges.raw_induct
          [where P = "\<lambda>E graph c e x y. \<exists>ids. sdeqMarks x ids y", OF step assms])
qed

lemma bottleneckMarkEqualityPath_marks:
  assumes "bottleneckMarkEqualityPath E graph s t x = Some y"
  shows "\<exists>ids. sdeqMarks x ids y"
proof -
  have step: "\<exists>ids. sdeqMarks extdata ids y"
    if IH: "\<And>E graph s t x y. f E graph s t x = Some y \<Longrightarrow> \<exists>ids. sdeqMarks x ids y"
      and body: "(if path_start \<noteq> path_end then do {
                    parent \<leftarrow> rd (tree_parentNode extdata) path_start;
                    e \<leftarrow> rd (outbeg graph) parent;
                    extdata' \<leftarrow> markEqualityPathEdges E graph path_start e extdata;
                    f E graph parent path_end extdata'
                  } else Some extdata) = Some y"
    for f E graph path_start path_end extdata y
  proof (cases "path_start \<noteq> path_end")
    case False
    with body have "y = extdata" by simp
    then show ?thesis using sdeqMarks_refl by blast
  next
    case True
    with body obtain parent e x' where
      st: "markEqualityPathEdges E graph path_start e extdata = Some x'"
      and rest: "f E graph parent path_end x' = Some y"
      by (auto split: Option.bind_splits)
    from st obtain as where "sdeqMarks extdata as x'"
      using markEqualityPathEdges_marks by blast
    moreover from rest obtain bs where "sdeqMarks x' bs y"
      using IH by blast
    ultimately show ?thesis using sdeqMarks_trans by blast
  qed
  show ?thesis
    by (rule bottleneckMarkEqualityPath.raw_induct
          [where P = "\<lambda>E graph s t x y. \<exists>ids. sdeqMarks x ids y", OF step assms])
qed

text \<open>
  C10. Marking a single edge (\<^verbatim>\<open>bottleneckMarkEqualityEdge\<close>) and marking a path
  (\<^verbatim>\<open>bottleneckMarkEqualityPath\<close>) change nothing but the three \<open>sdeq\<close> fields, and what
  they append to \<open>sdeq_resetStack\<close> are pairwise different undirected edge ids (for the
  single edge: nothing, or the id \<open>edge / 2\<close>) whose flag in \<open>sdeq_edgesIsForbidden\<close> was
  false before and is true after, all other flags being unchanged;
  \<open>sdeq_hasForbiddenEdges\<close> is set as soon as an id is appended. Hence, if before the call
  no id is twice on the stack and every id on it is flagged, the same holds after it.
\<close>

theorem sdeq_marking_keeps_reset_stack:
  "(bottleneckMarkEqualityEdge edge x = Some y \<longrightarrow>
      (\<exists>ids. (ids = [] \<or> ids = [edge sdiv 2]) \<and> sdeqMarks x ids y) \<and> (sdeqInv x \<longrightarrow> sdeqInv y))
   \<and> (bottleneckMarkEqualityPath E graph path_start path_end x = Some z \<longrightarrow>
      (\<exists>ids. sdeqMarks x ids z) \<and> (sdeqInv x \<longrightarrow> sdeqInv z))"
  using bottleneckMarkEqualityEdge_marks bottleneckMarkEqualityPath_marks sdeqMarks_inv
  by blast

theorem sdeq_marking_keeps_reset_stack_witness:
  "bottleneckMarkEqualityEdge 2 ext_pcpath
     = Some (ext_pcpath\<lparr>sdeq_edgesIsForbidden := [False, True], sdeq_hasForbiddenEdges := True,
                         sdeq_resetStack := [1]\<rparr>)
   \<and> bottleneckMarkEqualityPath env0 graph_pcpath 2 0 ext_pcpath
     = Some (ext_pcpath\<lparr>sdeq_edgesIsForbidden := [True, True], sdeq_hasForbiddenEdges := True,
                         sdeq_resetStack := [1, 0]\<rparr>)
   \<and> sdeqInv ext_pcpath
   \<and> sdeqInv (ext_pcpath\<lparr>sdeq_edgesIsForbidden := [False, True], sdeq_hasForbiddenEdges := True,
                         sdeq_resetStack := [1]\<rparr>)
   \<and> sdeqInv (ext_pcpath\<lparr>sdeq_edgesIsForbidden := [True, True], sdeq_hasForbiddenEdges := True,
                         sdeq_resetStack := [1, 0]\<rparr>)"
proof -
  let ?y = "ext_pcpath\<lparr>sdeq_edgesIsForbidden := [False, True], sdeq_hasForbiddenEdges := True,
                         sdeq_resetStack := [1]\<rparr>"
  let ?z = "ext_pcpath\<lparr>sdeq_edgesIsForbidden := [True, True], sdeq_hasForbiddenEdges := True,
                         sdeq_resetStack := [1, 0]\<rparr>"
  have half: "(2 :: int) sdiv 2 = 1" "(0 :: int) sdiv 2 = 0"
    by (simp_all add: signed_divide_int_def)
  have e: "bottleneckMarkEqualityEdge 2 ext_pcpath = Some ?y"
    by (simp add: bottleneckMarkEqualityEdge_def half rd_def wr_def ext_pcpath_def)
  have p: "bottleneckMarkEqualityPath env0 graph_pcpath 2 0 ext_pcpath = Some ?z"
    by (simp add: bottleneckMarkEqualityPath.simps markEqualityPathEdges.simps
        bottleneckMarkEqualityEdge_def half rd_def wr_def ext_pcpath_def graph_pcpath_def env0_def)
  have i: "sdeqInv ext_pcpath"
    by (simp add: sdeqInv_def ext_pcpath_def)
  from sdeq_marking_keeps_reset_stack
         [where edge = 2 and x = ext_pcpath and y = ?y and E = env0 and graph = graph_pcpath
            and path_start = 2 and path_end = 0 and z = ?z] e p i
  show ?thesis by blast
qed

subsection \<open>C4: dominance tests at an unknown special distance\<close>










subsection \<open>C9: removing a level and a component\<close>

text \<open>
  C9 as stated fails: in the middle of an extension step, when the horizontal part of the
  level has not been added yet, \<^verbatim>\<open>extreduce_mstLevelRemove\<close> pops the vertical level only
  and leaves the horizontal distances and the levelbase depot as they are.
\<close>

theorem level_remove_pops_all_counterexample:
  "extreduce_mstLevelRemove reddata_midstep
     = Some (reddata_midstep\<lparr>sds_vertical :=
               \<lparr> ml_levels = [level0], ml_emptyslot = mldistsFreshSlot 1 \<rparr>\<rparr>)
   \<and> spec_level_remove reddata_midstep
     = Some (reddata_midstep\<lparr>
          sds_horizontal := \<lparr> ml_levels = [], ml_emptyslot = mldistsFreshSlot 0 \<rparr>,
          msts_levelbase := \<lparr> depo_csrs = [], depo_topIsEmpty = False \<rparr>,
          sds_vertical := \<lparr> ml_levels = [level0], ml_emptyslot = mldistsFreshSlot 1 \<rparr>\<rparr>)
   \<and> extreduce_mstLevelRemove reddata_midstep \<noteq> spec_level_remove reddata_midstep"
  by (simp add: extreduce_mstLevelRemove_def spec_level_remove_def reddata_midstep_def
      extreduce_mldistsNlevels_def extreduce_mldistsLevelRemoveTop_def
      graph_csrdepo_removeTop_def Let_def)

lemma levelRemove_result:
  assumes v: "ml_levels (sds_vertical red) \<noteq> []"
    and hb: "extreduce_mldistsNlevels (sds_horizontal red)
               = extreduce_mldistsNlevels (sds_vertical red)
             \<Longrightarrow> depo_csrs (msts_levelbase red) \<noteq> []"
  shows "\<exists>r. extreduce_mstLevelRemove red = Some r
     \<and> ml_levels (sds_vertical r) = tl (ml_levels (sds_vertical red))
     \<and> msts_comp r = msts_comp red
     \<and> (if extreduce_mldistsNlevels (sds_horizontal red)
             = extreduce_mldistsNlevels (sds_vertical red)
         then extreduce_mstLevelRemove red = spec_level_remove red
              \<and> ml_levels (sds_horizontal r) = tl (ml_levels (sds_horizontal red))
              \<and> depo_csrs (msts_levelbase r) = tl (depo_csrs (msts_levelbase red))
         else sds_horizontal r = sds_horizontal red
              \<and> msts_levelbase r = msts_levelbase red)
     \<and> (graph_csrdepo_getNcsrs (msts_levelbase red)
           = extreduce_mldistsNlevels (sds_horizontal red)
        \<longrightarrow> graph_csrdepo_getNcsrs (msts_levelbase r)
              = extreduce_mldistsNlevels (sds_horizontal r))"
proof (cases "extreduce_mldistsNlevels (sds_horizontal red)
               = extreduce_mldistsNlevels (sds_vertical red)")
  case True
  with v have h: "ml_levels (sds_horizontal red) \<noteq> []"
    by (auto simp: extreduce_mldistsNlevels_def)
  from hb [OF True] have b: "depo_csrs (msts_levelbase red) \<noteq> []" .
  from v h b True show ?thesis
    by (auto simp: extreduce_mstLevelRemove_def spec_level_remove_def Let_def
        extreduce_mldistsNlevels_def extreduce_mldistsLevelRemoveTop_def
        graph_csrdepo_removeTop_def graph_csrdepo_getNcsrs_def neq_Nil_conv)
next
  case False
  with v show ?thesis
    by (auto simp: extreduce_mstLevelRemove_def Let_def
        extreduce_mldistsNlevels_def extreduce_mldistsLevelRemoveTop_def neq_Nil_conv)
qed

lemma compRemove_result:
  assumes d: "0 \<le> tree_depth extdata"
  shows "\<exists>e. extreduce_mstCompRemove graph extdata = Some e
     \<and> (if graph_csrdepo_getNcsrs (msts_comp (reddata extdata)) - 1 > tree_depth extdata
         then depo_csrs (msts_comp (reddata e)) = tl (depo_csrs (msts_comp (reddata extdata)))
              \<and> graph_csrdepo_getNcsrs (msts_comp (reddata e))
                   = graph_csrdepo_getNcsrs (msts_comp (reddata extdata)) - 1
         else e = extdata)
     \<and> tree_depth e = tree_depth extdata
     \<and> (graph_csrdepo_getNcsrs (msts_comp (reddata extdata)) = tree_depth extdata + 2
          \<or> graph_csrdepo_getNcsrs (msts_comp (reddata extdata)) = tree_depth extdata + 1
        \<longrightarrow> graph_csrdepo_getNcsrs (msts_comp (reddata e)) = tree_depth e + 1)"
proof (cases "graph_csrdepo_getNcsrs (msts_comp (reddata extdata)) - 1 > tree_depth extdata")
  case True
  with d have "depo_csrs (msts_comp (reddata extdata)) \<noteq> []"
    by (auto simp: graph_csrdepo_getNcsrs_def)
  with True show ?thesis
    by (auto simp: extreduce_mstCompRemove_def Let_def graph_csrdepo_removeTop_def
        graph_csrdepo_getNcsrs_def neq_Nil_conv)
next
  case False
  then show ?thesis
    by (auto simp: extreduce_mstCompRemove_def Let_def)
qed

text \<open>
  C9 (as amended). \<^verbatim>\<open>extreduce_mstLevelRemove\<close> always pops the top vertical level. It pops
  the top horizontal level and the top levelbase MST before that (and then is the
  retraction of the specification) exactly when the horizontal store has as many levels as
  the vertical one; otherwise it leaves both untouched. In either case the component depot
  is untouched and \<open>n_csrs(levelbase) = n_levels(horizontal)\<close> holds after the call if it
  held before. \<^verbatim>\<open>extreduce_mstCompRemove\<close> pops the top component MST exactly when the depot
  holds more than \<open>tree_depth + 1\<close> MSTs, so that \<open>n_csrs(component) = tree_depth + 1\<close> holds
  after the call whenever the depot held \<open>tree_depth + 1\<close> or \<open>tree_depth + 2\<close> MSTs.
\<close>

theorem level_remove_and_comp_remove:
  "(ml_levels (sds_vertical red) \<noteq> []
    \<and> (extreduce_mldistsNlevels (sds_horizontal red)
          = extreduce_mldistsNlevels (sds_vertical red)
        \<longrightarrow> depo_csrs (msts_levelbase red) \<noteq> [])
    \<longrightarrow> (\<exists>r. extreduce_mstLevelRemove red = Some r
         \<and> ml_levels (sds_vertical r) = tl (ml_levels (sds_vertical red))
         \<and> msts_comp r = msts_comp red
         \<and> (if extreduce_mldistsNlevels (sds_horizontal red)
                 = extreduce_mldistsNlevels (sds_vertical red)
             then extreduce_mstLevelRemove red = spec_level_remove red
                  \<and> ml_levels (sds_horizontal r) = tl (ml_levels (sds_horizontal red))
                  \<and> depo_csrs (msts_levelbase r) = tl (depo_csrs (msts_levelbase red))
             else sds_horizontal r = sds_horizontal red
                  \<and> msts_levelbase r = msts_levelbase red)
         \<and> (graph_csrdepo_getNcsrs (msts_levelbase red)
               = extreduce_mldistsNlevels (sds_horizontal red)
            \<longrightarrow> graph_csrdepo_getNcsrs (msts_levelbase r)
                  = extreduce_mldistsNlevels (sds_horizontal r))))
   \<and> (0 \<le> tree_depth extdata
    \<longrightarrow> (\<exists>e. extreduce_mstCompRemove graph extdata = Some e
         \<and> (if graph_csrdepo_getNcsrs (msts_comp (reddata extdata)) - 1 > tree_depth extdata
             then depo_csrs (msts_comp (reddata e)) = tl (depo_csrs (msts_comp (reddata extdata)))
                  \<and> graph_csrdepo_getNcsrs (msts_comp (reddata e))
                       = graph_csrdepo_getNcsrs (msts_comp (reddata extdata)) - 1
             else e = extdata)
         \<and> tree_depth e = tree_depth extdata
         \<and> (graph_csrdepo_getNcsrs (msts_comp (reddata extdata)) = tree_depth extdata + 2
              \<or> graph_csrdepo_getNcsrs (msts_comp (reddata extdata)) = tree_depth extdata + 1
            \<longrightarrow> graph_csrdepo_getNcsrs (msts_comp (reddata e)) = tree_depth e + 1)))"
  using levelRemove_result [of red] compRemove_result [of extdata graph] by blast

theorem level_remove_and_comp_remove_witness:
  "extreduce_mstLevelRemove reddata_full = spec_level_remove reddata_full
   \<and> (\<exists>r. extreduce_mstLevelRemove reddata_full = Some r
        \<and> ml_levels (sds_vertical r) = [level0]
        \<and> ml_levels (sds_horizontal r) = [level0]
        \<and> depo_csrs (msts_levelbase r) = [mst1]
        \<and> graph_csrdepo_getNcsrs (msts_levelbase r) = extreduce_mldistsNlevels (sds_horizontal r))
   \<and> (\<exists>e. extreduce_mstCompRemove graph_path3 (ext_eq3\<lparr>tree_depth := 0, reddata := reddata_full\<rparr>)
             = Some e
        \<and> depo_csrs (msts_comp (reddata e)) = [mst1]
        \<and> graph_csrdepo_getNcsrs (msts_comp (reddata e)) = tree_depth e + 1)"
proof -
  let ?x = "ext_eq3\<lparr>tree_depth := 0, reddata := reddata_full\<rparr>"
  have v: "ml_levels (sds_vertical reddata_full) \<noteq> []"
    and b: "depo_csrs (msts_levelbase reddata_full) \<noteq> []"
    and n: "extreduce_mldistsNlevels (sds_horizontal reddata_full)
              = extreduce_mldistsNlevels (sds_vertical reddata_full)"
    and c: "graph_csrdepo_getNcsrs (msts_levelbase reddata_full)
              = extreduce_mldistsNlevels (sds_horizontal reddata_full)"
    and tv: "tl (ml_levels (sds_vertical reddata_full)) = [level0]"
    and th: "tl (ml_levels (sds_horizontal reddata_full)) = [level0]"
    and tb: "tl (depo_csrs (msts_levelbase reddata_full)) = [mst1]"
    by (simp_all add: reddata_full_def extreduce_mldistsNlevels_def graph_csrdepo_getNcsrs_def)
  have d: "0 \<le> tree_depth ?x" by simp
  have m: "graph_csrdepo_getNcsrs (msts_comp (reddata ?x)) = tree_depth ?x + 2"
    and tc: "tl (depo_csrs (msts_comp (reddata ?x))) = [mst1]"
    by (simp_all add: reddata_full_def graph_csrdepo_getNcsrs_def)
  from level_remove_and_comp_remove [of reddata_full ?x graph_path3] v b n d
  obtain r e where r: "extreduce_mstLevelRemove reddata_full = Some r"
      "ml_levels (sds_vertical r) = tl (ml_levels (sds_vertical reddata_full))"
      "extreduce_mstLevelRemove reddata_full = spec_level_remove reddata_full"
      "ml_levels (sds_horizontal r) = tl (ml_levels (sds_horizontal reddata_full))"
      "depo_csrs (msts_levelbase r) = tl (depo_csrs (msts_levelbase reddata_full))"
      "graph_csrdepo_getNcsrs (msts_levelbase reddata_full)
               = extreduce_mldistsNlevels (sds_horizontal reddata_full)
            \<longrightarrow> graph_csrdepo_getNcsrs (msts_levelbase r)
                  = extreduce_mldistsNlevels (sds_horizontal r)"
    and e: "extreduce_mstCompRemove graph_path3 ?x = Some e"
      "if graph_csrdepo_getNcsrs (msts_comp (reddata ?x)) - 1 > tree_depth ?x
             then depo_csrs (msts_comp (reddata e)) = tl (depo_csrs (msts_comp (reddata ?x)))
                  \<and> graph_csrdepo_getNcsrs (msts_comp (reddata e))
                       = graph_csrdepo_getNcsrs (msts_comp (reddata ?x)) - 1
             else e = ?x"
      "graph_csrdepo_getNcsrs (msts_comp (reddata ?x)) = tree_depth ?x + 2
              \<or> graph_csrdepo_getNcsrs (msts_comp (reddata ?x)) = tree_depth ?x + 1
            \<longrightarrow> graph_csrdepo_getNcsrs (msts_comp (reddata e)) = tree_depth e + 1"
    by auto
  from e(2) m tc have e2: "depo_csrs (msts_comp (reddata e)) = [mst1]" by simp
  from e(3) m have e3: "graph_csrdepo_getNcsrs (msts_comp (reddata e)) = tree_depth e + 1" by blast
  from r c tv th tb e(1) e2 e3 show ?thesis by auto
qed

subsection \<open>C2: bottleneck domination against the ancestor leaves\<close>












subsection \<open>C6: the trial extension of the component MST\<close>

text \<open>
  C6 as stated fails in its "only if": an extension that has survived the tests against
  the leaves and whose extended MST weight does not undercut the tree cost is still ruled
  out when a bottleneck test against an inner node of the tree succeeds. In the tree
  \<open>0 - 1 - 2\<close> extended to 3, the extended MST weighs 6 against a tree cost of 5, but the
  special distance 2 from 3 to the inner node 1 is below the bottleneck 4 between 2 and 1.
\<close>

theorem vertical_add_leaf_iff_counterexample:
  "mstLevelLeafInit (env_grow 2) graph_path4 2 3 ext_grow
     = Some (ext_grow\<lparr>tree_bottleneckDistNode := [5, 4, - 1, - 1],
          reddata := (reddata ext_grow)\<lparr>sds_vertical :=
             \<lparr> ml_levels = [level1, level0],
               ml_emptyslot = (mldistsFreshSlot 1)\<lparr>slot_base := 3\<rparr> \<rparr>\<rparr>\<rparr>)
   \<and> mstLevelLeafSetVerticalSDs (env_grow 2) graph_path4 4
        (ext_grow\<lparr>tree_bottleneckDistNode := [5, 4, - 1, - 1],
          reddata := (reddata ext_grow)\<lparr>sds_vertical :=
             \<lparr> ml_levels = [level1, level0],
               ml_emptyslot = (mldistsFreshSlot 1)\<lparr>slot_base := 3\<rparr> \<rparr>\<rparr>\<rparr>)
     = Some (False, ext_grow\<lparr>tree_bottleneckDistNode := [5, 4, - 1, - 1],
          reddata := (reddata ext_grow)\<lparr>sds_vertical :=
             \<lparr> ml_levels = [level1, level0],
               ml_emptyslot = \<lparr> slot_base = 3, slot_dists = [10 ^ 15, 1],
                                slot_ids = [- 1, - 1] \<rparr> \<rparr>\<rparr>\<rparr>)
   \<and> reduce_dcmstGetExtWeight (env_grow 2) mst2 [10 ^ 15, 1] = 6
   \<and> ruleOutTreeCost graph_path4 ext_grow = 5
   \<and> \<not> LT (env_grow 2) 6 5
   \<and> extreduce_mstLevelVerticalAddLeaf (env_grow 2) graph_path4 4 ext_grow
     = Some (True, ext_grow)"
  by (simp add: extreduce_mstLevelVerticalAddLeaf_def mstLevelLeafInit_def
      mstLevelLeafSetVerticalSDs_def mstLevelLeafTryExtMst_def bottleneckCheckNonLeaves_def
      mstLevelLeafExit_def verticalEmptySlotWrite_def sdStored_def extGetSd_def
      extGetSdDouble_def bottleneckWithExtedgeIsDominated_def sdIsNonTrivial_def
      bottleneckIsEqualityDominated_def bottleneckGetDist_def getDistLoop.simps
      bottleneckMarkRootPath_def markRootPathLoop.simps bottleneckUnmarkRootPath_def
      unmarkRootPathLoop.simps bottleneckLocal_def graph_pc_isPc_def ruleOutTreeCost_def
      extreduce_mldistsEmptySlotSetBase_def extreduce_mldistsEmptySlotExists_def
      extreduce_mldistsEmptySlotTargetDists_def extreduce_mldistsEmptySlotReset_def
      mldistsEmptySlotPutDists_def mldistsFreshSlot_def graph_csrdepo_getTopCSR_def
      cheapest_def LT_def LE_def rd_def wr_def ext_grow_def graph_path4_def env_grow_def env0_def
      reddata0_def pcdata0_def level1_def level0_def mst2_def mst1_def Let_def
      numeral_eq_Suc)

text \<open>
  C6 (as amended). When the candidate neighbor has survived the bottleneck tests against the
  leaves (\<^verbatim>\<open>mstLevelLeafSetVerticalSDs\<close> has not ruled it out), the trial extension
  \<^verbatim>\<open>mstLevelLeafTryExtMst\<close> computes the DCMST ext-weight of the top component MST with the
  candidate's adjacency costs (the distances of the slot being written) and rules out if
  and only if this weight is strictly smaller than the tree cost (minus the inner prizes in
  the prize-collecting variant). If it rules out, \<^verbatim>\<open>extreduce_mstLevelVerticalAddLeaf\<close>
  rules out; if it does not, the verdict of \<^verbatim>\<open>extreduce_mstLevelVerticalAddLeaf\<close> is the
  verdict of the bottleneck tests against the non-leaves of the tree that follow.
\<close>

theorem vertical_add_leaf_trial_extension:
  assumes hd: "rd (head graph) edge2neighbor = Some neighbor"
    and tl: "rd (tail graph) edge2neighbor = Some neighbor_base"
    and init: "mstLevelLeafInit E graph neighbor_base neighbor extdata = Some started"
    and survived: "mstLevelLeafSetVerticalSDs E graph edge2neighbor started = Some (False, extdata1)"
    and slot: "extreduce_mldistsEmptySlotTargetDists (sds_vertical (reddata extdata1))
                 = Some adjcosts"
    and top: "graph_csrdepo_getTopCSR (msts_comp (reddata extdata1)) = Some topmst"
  shows "mstLevelLeafTryExtMst E graph neighbor extdata1
           = Some (LT E (reduce_dcmstGetExtWeight E topmst adjcosts)
                     (ruleOutTreeCost graph extdata1))
     \<and> (\<forall>extdata'.
           LT E (reduce_dcmstGetExtWeight E topmst adjcosts) (ruleOutTreeCost graph extdata1)
           \<and> mstLevelLeafExit E graph neighbor_base neighbor True extdata1 = Some extdata'
           \<longrightarrow> extreduce_mstLevelVerticalAddLeaf E graph edge2neighbor extdata
                 = Some (True, extdata'))
     \<and> (\<forall>r3 x3 r4 x4 extdata'.
           \<not> LT E (reduce_dcmstGetExtWeight E topmst adjcosts) (ruleOutTreeCost graph extdata1)
           \<and> (if graph_pc_isPc graph
               then bottleneckCheckNonLeaves_pc E graph edge2neighbor extdata1
               else Some (False, extdata1)) = Some (r3, x3)
           \<and> (if \<not> r3 then bottleneckCheckNonLeaves E graph edge2neighbor x3
               else Some (True, x3)) = Some (r4, x4)
           \<and> mstLevelLeafExit E graph neighbor_base neighbor r4 x4 = Some extdata'
           \<longrightarrow> extreduce_mstLevelVerticalAddLeaf E graph edge2neighbor extdata
                 = Some (r4, extdata'))"
proof (intro conjI allI impI)
  show t: "mstLevelLeafTryExtMst E graph neighbor extdata1
           = Some (LT E (reduce_dcmstGetExtWeight E topmst adjcosts)
                     (ruleOutTreeCost graph extdata1))"
    using slot top by (simp add: mstLevelLeafTryExtMst_def Let_def)
  {
    fix extdata'
    assume "LT E (reduce_dcmstGetExtWeight E topmst adjcosts) (ruleOutTreeCost graph extdata1)
           \<and> mstLevelLeafExit E graph neighbor_base neighbor True extdata1 = Some extdata'"
    then show "extreduce_mstLevelVerticalAddLeaf E graph edge2neighbor extdata
                 = Some (True, extdata')"
      using hd tl init survived t
      by (simp add: extreduce_mstLevelVerticalAddLeaf_def Let_def)
  }
  {
    fix r3 x3 r4 x4 extdata'
    assume a: "\<not> LT E (reduce_dcmstGetExtWeight E topmst adjcosts) (ruleOutTreeCost graph extdata1)
           \<and> (if graph_pc_isPc graph
               then bottleneckCheckNonLeaves_pc E graph edge2neighbor extdata1
               else Some (False, extdata1)) = Some (r3, x3)
           \<and> (if \<not> r3 then bottleneckCheckNonLeaves E graph edge2neighbor x3
               else Some (True, x3)) = Some (r4, x4)
           \<and> mstLevelLeafExit E graph neighbor_base neighbor r4 x4 = Some extdata'"
    then have "r3 \<longrightarrow> r4" by (auto split: if_splits)
    with a show "extreduce_mstLevelVerticalAddLeaf E graph edge2neighbor extdata
                 = Some (r4, extdata')"
      using hd tl init survived t
      by (auto simp: extreduce_mstLevelVerticalAddLeaf_def Let_def split: if_splits)
  }
qed

theorem vertical_add_leaf_trial_extension_witness:
  "mstLevelLeafTryExtMst (env_grow 5) graph_path4 3
       (ext_grow\<lparr>tree_bottleneckDistNode := [5, 4, - 1, - 1],
          reddata := (reddata ext_grow)\<lparr>sds_vertical :=
             \<lparr> ml_levels = [level1, level0],
               ml_emptyslot = \<lparr> slot_base = 3, slot_dists = [10 ^ 15, 1],
                                slot_ids = [- 1, - 1] \<rparr> \<rparr>\<rparr>\<rparr>)
     = Some (LT (env_grow 5) (reduce_dcmstGetExtWeight (env_grow 5) mst2 [10 ^ 15, 1])
               (ruleOutTreeCost graph_path4
                  (ext_grow\<lparr>tree_bottleneckDistNode := [5, 4, - 1, - 1],
                     reddata := (reddata ext_grow)\<lparr>sds_vertical :=
                       \<lparr> ml_levels = [level1, level0],
                         ml_emptyslot = \<lparr> slot_base = 3, slot_dists = [10 ^ 15, 1],
                                          slot_ids = [- 1, - 1] \<rparr> \<rparr>\<rparr>\<rparr>)))
   \<and> mstLevelLeafTryExtMst (env_grow 5) graph_path4 3
       (ext_grow\<lparr>tree_bottleneckDistNode := [5, 4, - 1, - 1],
          reddata := (reddata ext_grow)\<lparr>sds_vertical :=
             \<lparr> ml_levels = [level1, level0],
               ml_emptyslot = \<lparr> slot_base = 3, slot_dists = [10 ^ 15, 1],
                                slot_ids = [- 1, - 1] \<rparr> \<rparr>\<rparr>\<rparr>)
     = Some False"
proof -
  let ?started = "ext_grow\<lparr>tree_bottleneckDistNode := [5, 4, - 1, - 1],
          reddata := (reddata ext_grow)\<lparr>sds_vertical :=
             \<lparr> ml_levels = [level1, level0],
               ml_emptyslot = (mldistsFreshSlot 1)\<lparr>slot_base := 3\<rparr> \<rparr>\<rparr>\<rparr>"
  let ?x1 = "ext_grow\<lparr>tree_bottleneckDistNode := [5, 4, - 1, - 1],
          reddata := (reddata ext_grow)\<lparr>sds_vertical :=
             \<lparr> ml_levels = [level1, level0],
               ml_emptyslot = \<lparr> slot_base = 3, slot_dists = [10 ^ 15, 1],
                                slot_ids = [- 1, - 1] \<rparr> \<rparr>\<rparr>\<rparr>"
  have hd: "rd (head graph_path4) 4 = Some 3" and tl: "rd (tail graph_path4) 4 = Some 2"
    by (simp_all add: rd_def graph_path4_def)
  have init: "mstLevelLeafInit (env_grow 5) graph_path4 2 3 ext_grow = Some ?started"
    by (simp add: mstLevelLeafInit_def bottleneckMarkRootPath_def markRootPathLoop.simps
        bottleneckLocal_def graph_pc_isPc_def extreduce_mldistsEmptySlotSetBase_def
        extreduce_mldistsEmptySlotExists_def mldistsFreshSlot_def rd_def wr_def ext_grow_def
        graph_path4_def reddata0_def pcdata0_def level1_def Let_def)
  have survived: "mstLevelLeafSetVerticalSDs (env_grow 5) graph_path4 4 ?started
                    = Some (False, ?x1)"
    by (simp add: mstLevelLeafSetVerticalSDs_def verticalEmptySlotWrite_def sdStored_def
        extGetSd_def extGetSdDouble_def bottleneckWithExtedgeIsDominated_def sdIsNonTrivial_def
        bottleneckIsEqualityDominated_def bottleneckGetDist_def getDistLoop.simps
        extreduce_mldistsEmptySlotExists_def extreduce_mldistsEmptySlotTargetDists_def
        mldistsEmptySlotPutDists_def mldistsFreshSlot_def LT_def LE_def rd_def wr_def
        ext_grow_def graph_path4_def env_grow_def env0_def reddata0_def pcdata0_def level1_def
        Let_def numeral_eq_Suc)
  have slot: "extreduce_mldistsEmptySlotTargetDists (sds_vertical (reddata ?x1))
                = Some [10 ^ 15, 1]"
    by (simp add: extreduce_mldistsEmptySlotTargetDists_def extreduce_mldistsEmptySlotExists_def
        level1_def)
  have top: "graph_csrdepo_getTopCSR (msts_comp (reddata ?x1)) = Some mst2"
    by (simp add: graph_csrdepo_getTopCSR_def ext_grow_def reddata0_def)
  have nlt: "LT (env_grow 5) (reduce_dcmstGetExtWeight (env_grow 5) mst2 [10 ^ 15, 1])
               (ruleOutTreeCost graph_path4 ?x1) = False"
    by (simp add: LT_def ruleOutTreeCost_def cheapest_def env_grow_def env0_def mst2_def
        graph_path4_def ext_grow_def numeral_eq_Suc)
  from vertical_add_leaf_trial_extension [OF hd tl init survived slot top] nlt
  show ?thesis by simp
qed

subsection \<open>C5: closing a level pushes the levelbase MST\<close>















subsection \<open>C8: the range of the stored special distances\<close>






















































end
